theory Spec2Isabelle
  imports Complex_Main
begin

section \<open>crisPy2: the CRISP cube accessor and its slicing mixins\<close>

text \<open>
  A shallow embedding of \<^verbatim>\<open>crisPy2/crisp.py\<close> (class \<^verbatim>\<open>CRISP\<close>) and
  \<^verbatim>\<open>crisPy2/mixin.py\<close> (class \<^verbatim>\<open>InversionSlicingMixin\<close>).

  Conventions of the embedding:
  \<^item> a Python call returns \<open>py_error + 'a\<close>: \<open>Inl e\<close> is the exception \<open>e\<close> raised,
    \<open>Inr v\<close> the value returned; a function that can fall off its end returns
    \<open>'a option\<close> inside, \<open>None\<close> being Python's \<^verbatim>\<open>None\<close>;
  \<^item> the numbers held by arrays and quantities are real numbers, a float64 being the
    real number it stands for. The unit conversion takes the rounding of its arithmetic
    as a parameter: \<open>unit_conversion\<close> is the method in exact arithmetic,
    \<open>unit_conversion_in f64\<close> the method in float64 arithmetic. A division by a zero
    pixel resolution (which numpy answers with \<^verbatim>\<open>inf\<close> or \<^verbatim>\<open>nan\<close>, not with an
    exception) is outside the model, so a statement about the numbers that a division
    yields assumes a non-zero resolution;
  \<^item> an attribute that \<^verbatim>\<open>__init__\<close> may leave unset is an \<open>option\<close> field of the
    accessor record, and reading it when unset raises \<^verbatim>\<open>AttributeError\<close>.
\<close>

subsection \<open>Exceptions and sequencing\<close>

datatype py_error =
    AttributeError string
  | KeyError string
  | NameError string
  | IndexError
  | TypeError
  | ValueError
  | OSError
  | WiseGuyError

definition then_do :: "py_error + 'a \<Rightarrow> ('a \<Rightarrow> py_error + 'b) \<Rightarrow> py_error + 'b" where
  "then_do m f = (case m of Inl e \<Rightarrow> Inl e | Inr x \<Rightarrow> f x)"

text \<open>Reading an instance attribute: \<^verbatim>\<open>self.name\<close>.\<close>

definition attr :: "string \<Rightarrow> 'a option \<Rightarrow> py_error + 'a" where
  "attr name field = (case field of None \<Rightarrow> Inl (AttributeError name) | Some v \<Rightarrow> Inr v)"

text \<open>Running a list of calls in order, stopping at the first exception.\<close>

fun collect :: "(py_error + 'a) list \<Rightarrow> py_error + 'a list" where
  "collect [] = Inr []"
| "collect (r # rs) =
     (case r of Inl e \<Rightarrow> Inl e
      | Inr v \<Rightarrow> (case collect rs of Inl e \<Rightarrow> Inl e | Inr vs \<Rightarrow> Inr (v # vs)))"

subsection \<open>Strings\<close>

text \<open>Python's \<^verbatim>\<open>needle in haystack\<close> on strings: a contiguous substring test.\<close>

fun starts_with :: "string \<Rightarrow> string \<Rightarrow> bool" where
  "starts_with s [] = True"
| "starts_with [] (d # ds) = False"
| "starts_with (c # cs) (d # ds) = (c = d \<and> starts_with cs ds)"

fun is_in :: "string \<Rightarrow> string \<Rightarrow> bool" where
  "is_in needle [] = (needle = [])"
| "is_in needle (c # cs) = (starts_with (c # cs) needle \<or> is_in needle cs)"

text \<open>
  \<^verbatim>\<open>str.lower()\<close> on the ASCII letters; no character outside ASCII lowers to
  \<^verbatim>\<open>c\<close>, \<^verbatim>\<open>a\<close> or \<^verbatim>\<open>h\<close>, the only letters the code compares with.
\<close>

definition lower_char :: "char \<Rightarrow> char" where
  "lower_char c =
     (let n = of_char c :: nat in if 65 \<le> n \<and> n \<le> 90 then char_of (n + 32) else c)"

definition lower :: "string \<Rightarrow> string" where
  "lower s = map lower_char s"

text \<open>The truth value of a string in a condition: empty is false.\<close>

definition truthy :: "string \<Rightarrow> bool" where
  "truthy s = (s \<noteq> [])"

subsection \<open>Arrays\<close>

text \<open>
  A numpy array as nested lists: \<open>Num\<close> is a 0-dimensional array, \<open>Arr\<close> adds one
  axis. \<open>ndim\<close> is \<^verbatim>\<open>len(a.shape)\<close>, read along the first elements (the cubes of
  the instrument have no axis of length zero).
\<close>

datatype nd = Num real | Arr "nd list"

fun ndim :: "nd \<Rightarrow> nat" where
  "ndim (Num v) = 0"
| "ndim (Arr []) = 1"
| "ndim (Arr (x # xs)) = Suc (ndim x)"

text \<open>An index expression: one entry per axis, an integer or the full slice \<^verbatim>\<open>:\<close>.\<close>

datatype idx = Ix int | Whole

text \<open>Python's \<^verbatim>\<open>xs[i]\<close>: a negative index counts from the end.\<close>

definition py_nth :: "'a list \<Rightarrow> int \<Rightarrow> py_error + 'a" where
  "py_nth xs i =
     (if 0 \<le> i \<and> i < int (length xs) then Inr (xs ! nat i)
      else if i < 0 \<and> - int (length xs) \<le> i then Inr (xs ! nat (int (length xs) + i))
      else Inl IndexError)"

lemma py_nth_in_set: "py_nth xs i = Inr x \<Longrightarrow> x \<in> set xs"
  by (auto simp: py_nth_def split: if_splits)

text \<open>
  Basic indexing \<^verbatim>\<open>a[i0, i1, ...]\<close>: an integer selects along its axis and drops it,
  \<^verbatim>\<open>:\<close> keeps the axis; more entries than axes, or an integer out of range, raise
  \<^verbatim>\<open>IndexError\<close>.
\<close>

function getitem :: "nd \<Rightarrow> idx list \<Rightarrow> py_error + nd" where
  "getitem a [] = Inr a"
| "getitem (Num v) (i # rest) = Inl IndexError"
| "getitem (Arr xs) (Ix i # rest) =
     (case py_nth xs i of Inl e \<Rightarrow> Inl e | Inr x \<Rightarrow> getitem x rest)"
| "getitem (Arr xs) (Whole # rest) =
     (case collect (map (\<lambda>x. getitem x rest) xs) of Inl e \<Rightarrow> Inl e | Inr ys \<Rightarrow> Inr (Arr ys))"
  by pat_completeness auto
termination
proof (relation "measure (\<lambda>(a, is). size a)")
  show "wf (measure (\<lambda>(a, is). size a))" by simp
next
  fix xs :: "nd list" and i :: int and rest :: "idx list" and x :: nd
  assume "py_nth xs i = Inr x"
  then have "x \<in> set xs" by (rule py_nth_in_set)
  then have "size x < Suc (size_list size xs)"
    by (simp add: less_Suc_eq_le size_list_estimation')
  then show "((x, rest), (Arr xs, Ix i # rest)) \<in> measure (\<lambda>(a, is). size a)"
    by simp
next
  fix xs :: "nd list" and rest :: "idx list" and x :: nd
  assume "x \<in> set xs"
  then have "size x < Suc (size_list size xs)"
    by (simp add: less_Suc_eq_le size_list_estimation')
  then show "((x, rest), (Arr xs, Whole # rest)) \<in> measure (\<lambda>(a, is). size a)"
    by simp
qed

subsection \<open>Header values\<close>

text \<open>
  What a FITS card or a YAML entry can hold. A header is a mapping from keys to such
  values; \<^verbatim>\<open>header[key]\<close> raises \<^verbatim>\<open>KeyError\<close> on a missing key.
\<close>

datatype hval = HInt int | HReal real | HStr string | HList "hval list"

type_synonym header = "string \<rightharpoonup> hval"

definition lookup :: "header \<Rightarrow> string \<Rightarrow> py_error + hval" where
  "lookup h k = (case h k of None \<Rightarrow> Inl (KeyError k) | Some v \<Rightarrow> Inr v)"

subsection \<open>Quantities\<close>

text \<open>
  An astropy quantity: a value, which is a scalar or a one-dimensional array, and a unit.
  The three units are the ones the accessor converts between; a comparison such as
  \<^verbatim>\<open>coord.unit == "megameter"\<close> holds exactly for the unit of that name.
\<close>

datatype coord_unit = Pix | Arcsec | Megameter

datatype val = Scalar real | Vec "real list"

record quantity =
  qval :: val
  qunit :: coord_unit

fun vmap :: "(real \<Rightarrow> real) \<Rightarrow> val \<Rightarrow> val" where
  "vmap f (Scalar x) = Scalar (f x)"
| "vmap f (Vec xs) = Vec (map f xs)"

text \<open>
  An element-wise operation of two values under numpy's broadcasting: a scalar or a
  one-element array stretches to the other operand, two arrays of different lengths
  raise \<^verbatim>\<open>ValueError\<close>.
\<close>

fun broadcast :: "(real \<Rightarrow> real \<Rightarrow> real) \<Rightarrow> val \<Rightarrow> val \<Rightarrow> py_error + val" where
  "broadcast f (Scalar x) (Scalar y) = Inr (Scalar (f x y))"
| "broadcast f (Scalar x) (Vec ys) = Inr (Vec (map (f x) ys))"
| "broadcast f (Vec xs) (Scalar y) = Inr (Vec (map (\<lambda>x. f x y) xs))"
| "broadcast f (Vec xs) (Vec ys) =
     (if length xs = length ys then Inr (Vec (map2 f xs ys))
      else if length xs = 1 then Inr (Vec (map (f (hd xs)) ys))
      else if length ys = 1 then Inr (Vec (map (\<lambda>x. f x (hd ys)) xs))
      else Inl ValueError)"

definition pair_val :: "real \<times> real \<Rightarrow> val" where
  "pair_val p = Vec [fst p, snd p]"

text \<open>The numbers of a value, and the shapes that broadcast against a pair.\<close>

fun elems :: "val \<Rightarrow> real list" where
  "elems (Scalar x) = [x]"
| "elems (Vec xs) = xs"

fun fits_pair :: "val \<Rightarrow> bool" where
  "fits_pair (Scalar x) = True"
| "fits_pair (Vec xs) = (length xs = 1 \<or> length xs = 2)"

text \<open>\<^verbatim>\<open>np.round\<close>: to the nearest integer, a tie going to the even neighbour.\<close>

definition np_round :: "real \<Rightarrow> real" where
  "np_round x =
     (let f = \<lfloor>x\<rfloor>; d = x - of_int f
      in if d < 1 / 2 then of_int f
         else if 1 / 2 < d then of_int (f + 1)
         else if even f then of_int f else of_int (f + 1))"

subsection \<open>The accessor\<close>

text \<open>
  \<^verbatim>\<open>self.ca\<close> and \<^verbatim>\<open>self.ha\<close> are a FITS extension or an \<^verbatim>\<open>ObjDict\<close> with the keys
  \<^verbatim>\<open>data\<close> and \<^verbatim>\<open>header\<close>; a FITS extension may have no data (\<^verbatim>\<open>None\<close>).
\<close>

record cube =
  header :: header
  data :: "nd option"

record crisp =
  ca :: "cube option"
  ha :: "cube option"
  ca_wvls :: "nd option"
  ha_wvls :: "nd option"
  px_res :: "real option"
  pointing :: "(real \<times> real) option"
  mid :: "(real \<times> real) option"

text \<open>\<^verbatim>\<open>self.mm_sun\<close> and \<^verbatim>\<open>self.ang_sun\<close>, set first thing by every construction.\<close>

definition mm_sun :: real where
  "mm_sun = 1391"

definition ang_sun :: real where
  "ang_sun = 1920"

subsection \<open>Arithmetic\<close>

text \<open>
  The method computes on the float64 values of the quantities. Its translation below
  takes the arithmetic as a parameter \<open>fl\<close>, the rounding applied to the exact result of
  each multiplication, division, addition and subtraction: the identity gives the
  method in exact arithmetic, \<open>f64\<close> the method as the machine computes it.

  \<open>f64\<close> rounds a real number to the nearest float64, a tie going to the even
  significand: a float64 is a multiple of \<open>2 ^ (e - 52)\<close>, where \<open>e\<close> is the exponent
  of the number and is at least -1022 (below that the subnormal numbers keep the spacing
  \<open>2 ^ -1074\<close>). A result beyond the largest float64, which the machine turns into
  \<^verbatim>\<open>inf\<close>, is outside the model: a statement about \<open>f64\<close> assumes magnitudes below
  \<open>2 ^ 1023\<close>.
\<close>

definition pow2 :: "int \<Rightarrow> real" where
  "pow2 k = (if 0 \<le> k then 2 ^ nat k else 1 / 2 ^ nat (- k))"

definition f64 :: "real \<Rightarrow> real" where
  "f64 t =
     (if t = 0 then 0
      else (let q = pow2 (max \<lfloor>log 2 \<bar>t\<bar>\<rfloor> (- 1022) - 52) in np_round (t / q) * q))"

subsection \<open>\<^verbatim>\<open>CRISP.unit_conversion\<close>\<close>

text \<open>
  The method branches on \<^verbatim>\<open>centre\<close>, then on the string \<^verbatim>\<open>unit_to\<close>, then on the
  unit of the coordinate, and returns \<^verbatim>\<open>None\<close> when no branch matches. Attributes are
  read and operands combined in the order Python evaluates them, so that the first
  exception is the one raised, and every arithmetic operation is rounded by \<open>fl\<close>
  (\<^verbatim>\<open>np.round\<close> of a float is a float). Where the method calls itself on the result of
  another call, a \<^verbatim>\<open>None\<close> result would be passed on as the coordinate: the callee of
  line 231 reads \<^verbatim>\<open>coord.unit\<close> and raises, the callee of line 237 matches no branch
  before reading it. The undefined name of line 234 is \<^verbatim>\<open>coords\<close>.
\<close>

function unit_conversion_in ::
    "(real \<Rightarrow> real) \<Rightarrow> crisp \<Rightarrow> quantity \<Rightarrow> string \<Rightarrow> bool \<Rightarrow> py_error + quantity option" where
  "unit_conversion_in fl self coord unit_to centre =
    (if \<not> centre then
       (if unit_to = ''pix'' then
          (case qunit coord of
             Pix \<Rightarrow> Inr (Some coord)
           | Arcsec \<Rightarrow>
               then_do (attr ''px_res'' (px_res self)) (\<lambda>p.
                 Inr (Some \<lparr>qval = vmap np_round (vmap (\<lambda>c. fl (c / p)) (qval coord)),
                            qunit = Pix\<rparr>))
           | Megameter \<Rightarrow>
               then_do (attr ''px_res'' (px_res self)) (\<lambda>p.
                 Inr (Some \<lparr>qval = vmap np_round
                                     (vmap (\<lambda>c. fl (fl (fl (c * ang_sun) / mm_sun) / p)) (qval coord)),
                            qunit = Pix\<rparr>)))
        else if unit_to = ''arcsec'' then
          (case qunit coord of
             Pix \<Rightarrow>
               then_do (attr ''px_res'' (px_res self)) (\<lambda>p.
                 Inr (Some \<lparr>qval = vmap (\<lambda>c. fl (c * p)) (qval coord), qunit = Arcsec\<rparr>))
           | Arcsec \<Rightarrow> Inr (Some coord)
           | Megameter \<Rightarrow>
               Inr (Some \<lparr>qval = vmap (\<lambda>c. fl (c * fl (ang_sun / mm_sun))) (qval coord),
                          qunit = Arcsec\<rparr>))
        else if unit_to = ''Mm'' then
          (case qunit coord of
             Pix \<Rightarrow>
               then_do (attr ''px_res'' (px_res self)) (\<lambda>p.
                 Inr (Some \<lparr>qval = vmap (\<lambda>c. fl (fl (fl (c * p) * mm_sun) / ang_sun)) (qval coord),
                            qunit = Megameter\<rparr>))
           | Arcsec \<Rightarrow>
               Inr (Some \<lparr>qval = vmap (\<lambda>c. fl (fl (c * mm_sun) / ang_sun)) (qval coord),
                          qunit = Megameter\<rparr>)
           | Megameter \<Rightarrow> Inr (Some coord))
        else Inr None)
     else
       (if unit_to = ''pix'' then
          (case qunit coord of
             Pix \<Rightarrow> Inr (Some coord)
           | Arcsec \<Rightarrow>
               then_do (attr ''pointing'' (pointing self)) (\<lambda>pt.
               then_do (broadcast (\<lambda>a b. fl (a - b)) (qval coord) (pair_val pt)) (\<lambda>d.
               then_do (attr ''px_res'' (px_res self)) (\<lambda>p.
                 (let px_diff = vmap np_round (vmap (\<lambda>c. fl (c / p)) d)
                  in then_do (attr ''mid'' (mid self)) (\<lambda>m.
                     then_do (broadcast (\<lambda>a b. fl (a + b)) (pair_val m) px_diff) (\<lambda>r.
                       Inr (Some \<lparr>qval = r, qunit = Pix\<rparr>)))))))
           | Megameter \<Rightarrow> unit_conversion_in fl self coord ''pix'' False)
        else if unit_to = ''arcsec'' then
          (case qunit coord of
             Pix \<Rightarrow>
               then_do (attr ''mid'' (mid self)) (\<lambda>m.
               then_do (broadcast (\<lambda>a b. fl (a - b)) (qval coord) (pair_val m)) (\<lambda>d.
               then_do (attr ''px_res'' (px_res self)) (\<lambda>p.
               then_do (attr ''pointing'' (pointing self)) (\<lambda>pt.
               then_do (broadcast (\<lambda>a b. fl (a + b)) (vmap (\<lambda>c. fl (c * p)) d) (pair_val pt)) (\<lambda>r.
                 Inr (Some \<lparr>qval = r, qunit = Arcsec\<rparr>))))))
           | Arcsec \<Rightarrow>
               then_do (attr ''mid'' (mid self)) (\<lambda>m.
               then_do (attr ''px_res'' (px_res self)) (\<lambda>p.
               then_do (broadcast (\<lambda>a b. fl (a - b)) (qval coord)
                          (vmap (\<lambda>c. fl (c * p)) (pair_val m))) (\<lambda>d.
               then_do (attr ''pointing'' (pointing self)) (\<lambda>pt.
               then_do (broadcast (\<lambda>a b. fl (a + b)) d (pair_val pt)) (\<lambda>r.
                 Inr (Some \<lparr>qval = r, qunit = Arcsec\<rparr>))))))
           | Megameter \<Rightarrow>
               (case unit_conversion_in fl self coord ''pix'' False of
                  Inl e \<Rightarrow> Inl e
                | Inr None \<Rightarrow> Inl (AttributeError ''unit'')
                | Inr (Some px) \<Rightarrow> unit_conversion_in fl self px ''arcsec'' True))
        else if unit_to = ''megameter'' then
          (case qunit coord of
             Pix \<Rightarrow> Inl (NameError ''coords'')
           | Arcsec \<Rightarrow>
               (case unit_conversion_in fl self coord ''pix'' True of
                  Inl e \<Rightarrow> Inl e
                | Inr None \<Rightarrow> Inr None
                | Inr (Some px) \<Rightarrow> unit_conversion_in fl self px ''megameter'' False)
           | Megameter \<Rightarrow> Inr (Some coord))
        else Inr None))"
  by pat_completeness auto

text \<open>
  Termination: a call with \<^verbatim>\<open>centre=False\<close> calls nothing; a centred call either
  calls an uncentred one or, on line 231, a centred one on a coordinate that the
  uncentred conversion has already turned into pixels.
\<close>

lemma unit_conversion_in_pix_plain_unit:
  assumes "unit_conversion_in_dom (fl, self, coord, ''pix'', False)"
      and "unit_conversion_in fl self coord ''pix'' False = Inr (Some q)"
  shows "qunit q = Pix"
  using assms(2)
  by (auto simp: unit_conversion_in.psimps [OF assms(1)] then_do_def attr_def
           split: coord_unit.splits option.splits)

termination unit_conversion_in
proof (relation "measure (\<lambda>(fl, self, coord, unit_to, centre).
          if \<not> centre then 0
          else if unit_to = ''megameter'' then 3
          else if qunit coord = Megameter then 2 else 1)")
  show "wf (measure (\<lambda>(fl, self, coord, unit_to, centre).
          if \<not> centre then 0
          else if unit_to = ''megameter'' then 3
          else if qunit coord = Megameter then 2 else (1::nat)))" by simp
qed (auto dest: unit_conversion_in_pix_plain_unit)

declare unit_conversion_in.simps [simp del]

text \<open>The method in exact arithmetic.\<close>

definition unit_conversion :: "crisp \<Rightarrow> quantity \<Rightarrow> string \<Rightarrow> bool \<Rightarrow> py_error + quantity option" where
  "unit_conversion = unit_conversion_in (\<lambda>t. t)"

subsection \<open>\<^verbatim>\<open>CRISP.intensity_vector\<close>\<close>

text \<open>
  \<^verbatim>\<open>*coord\<close> iterates over the coordinate: a scalar quantity, or \<^verbatim>\<open>None\<close>, cannot be
  iterated. Each element of a one-dimensional quantity is itself a quantity, a
  0-dimensional array of a float with the unit pixel, and is put into the index
  expression as it is. The array refuses it: numpy takes only integers and arrays of
  integers or booleans as indices and raises \<^verbatim>\<open>IndexError\<close> for an array of floats,
  and \<^verbatim>\<open>Quantity.__index__\<close> refuses a quantity that has a unit. So no element of the
  coordinate becomes an index, whatever its value. The values of a quantity are floats
  here, as \<^verbatim>\<open>Quantity\<close> makes them unless another type is asked for; a quantity built
  with an integer type is refused as well, with \<^verbatim>\<open>TypeError\<close>.
\<close>

definition unpack :: "quantity option \<Rightarrow> py_error + real list" where
  "unpack c =
     (case c of None \<Rightarrow> Inl TypeError
      | Some q \<Rightarrow> (case qval q of Scalar x \<Rightarrow> Inl TypeError | Vec xs \<Rightarrow> Inr xs))"

definition as_index :: "real \<Rightarrow> py_error + idx" where
  "as_index r = Inl IndexError"

text \<open>
  \<^verbatim>\<open>d[pre, *coord]\<close>, for the leading index entries \<open>pre\<close>: \<^verbatim>\<open>None\<close> cannot be
  subscripted; an array is indexed once every element of the coordinate has become an
  index, which happens for the empty coordinate only.
\<close>

definition subscript :: "nd option \<Rightarrow> idx list \<Rightarrow> quantity option \<Rightarrow> py_error + nd" where
  "subscript d pre c =
     then_do (unpack c) (\<lambda>xs.
       (case d of None \<Rightarrow> Inl TypeError
        | Some a \<Rightarrow> then_do (collect (map as_index xs)) (\<lambda>is. getitem a (pre @ is))))"

text \<open>\<^verbatim>\<open>len(d.shape)\<close>; \<^verbatim>\<open>None\<close> has no shape.\<close>

definition shape_len :: "nd option \<Rightarrow> py_error + nat" where
  "shape_len d = (case d of None \<Rightarrow> Inl (AttributeError ''shape'') | Some a \<Rightarrow> Inr (ndim a))"

text \<open>\<^verbatim>\<open>return e\<close>: the value of \<open>e\<close>, unless evaluating it raises.\<close>

definition returned :: "py_error + 'a \<Rightarrow> py_error + 'a option" where
  "returned r = then_do r (\<lambda>v. Inr (Some v))"

definition intensity_vector ::
    "crisp \<Rightarrow> quantity \<Rightarrow> string \<Rightarrow> bool \<Rightarrow> bool \<Rightarrow> py_error + nd option" where
  "intensity_vector self coord line pol centre =
    (if line = ''ha'' \<and> pol then Inl WiseGuyError
     else
       then_do (unit_conversion self coord ''pix'' centre) (\<lambda>coord'.
         if lower line = ''ca'' then
           (if \<not> pol then
              then_do (attr ''ca'' (ca self)) (\<lambda>c.
              then_do (shape_len (data c)) (\<lambda>n.
                if n = 4 then returned (subscript (data c) [Ix 0, Whole] coord')
                else returned (subscript (data c) [Whole] coord')))
            else
              then_do (attr ''ca'' (ca self)) (\<lambda>c.
              then_do (shape_len (data c)) (\<lambda>n.
                if n = 4 then returned (subscript (data c) [Whole, Whole] coord')
                else Inl WiseGuyError)))
         else if lower line = ''ha'' then
           then_do (attr ''ha'' (ha self)) (\<lambda>h.
             returned (subscript (data h) [Whole] coord'))
         else Inr None))"

subsection \<open>Files\<close>

text \<open>
  What the two readers find on disk. \<^verbatim>\<open>fits.open(path)\<close> gives the list of extensions
  of a FITS file; \<^verbatim>\<open>h5py.File(path, "r")\<close> gives the datasets of an HDF5 file, of which
  the code reads \<^verbatim>\<open>"data"\<close> and \<^verbatim>\<open>"header"\<close> (a sequence of YAML documents, here already
  parsed into mappings). A reader given no file, or a file of the other format, raises
  \<^verbatim>\<open>OSError\<close>; a dataset that is not in the file raises \<^verbatim>\<open>KeyError\<close>.
\<close>

datatype content = FitsFile "cube list" | Hdf5File "nd option" "header list option"

type_synonym filesystem = "string \<rightharpoonup> content"

definition fits_open :: "filesystem \<Rightarrow> string \<Rightarrow> py_error + cube list" where
  "fits_open fs path =
     (case fs path of Some (FitsFile hdus) \<Rightarrow> Inr hdus | _ \<Rightarrow> Inl OSError)"

definition h5py_File :: "filesystem \<Rightarrow> string \<Rightarrow> py_error + (nd option \<times> header list option)" where
  "h5py_File fs path =
     (case fs path of Some (Hdf5File d h) \<Rightarrow> Inr (d, h) | _ \<Rightarrow> Inl OSError)"

definition dataset :: "string \<Rightarrow> 'a option \<Rightarrow> py_error + 'a" where
  "dataset name d = (case d of None \<Rightarrow> Inl (KeyError name) | Some v \<Rightarrow> Inr v)"

subsection \<open>Python operators on header values\<close>

text \<open>
  \<^verbatim>\<open>v << unit\<close> makes a quantity of a number or of a list of numbers. The model refuses
  a string (it does not follow astropy in parsing a string that spells a number), and
  for the scalar attributes (\<^verbatim>\<open>px_res\<close>, the entries of \<^verbatim>\<open>pointing\<close> and
  \<^verbatim>\<open>mid\<close>) it refuses a list.
\<close>

fun to_array :: "hval \<Rightarrow> py_error + nd" where
  "to_array (HInt i) = Inr (Num (of_int i))"
| "to_array (HReal r) = Inr (Num r)"
| "to_array (HStr s) = Inl TypeError"
| "to_array (HList vs) =
     (case collect (map to_array vs) of Inl e \<Rightarrow> Inl e | Inr xs \<Rightarrow> Inr (Arr xs))"

fun to_scalar :: "hval \<Rightarrow> py_error + real" where
  "to_scalar (HInt i) = Inr (of_int i)"
| "to_scalar (HReal r) = Inr r"
| "to_scalar (HStr s) = Inl TypeError"
| "to_scalar (HList vs) = Inl TypeError"

definition to_pair :: "hval \<Rightarrow> hval \<Rightarrow> py_error + real \<times> real" where
  "to_pair a b = then_do (to_scalar a) (\<lambda>x. then_do (to_scalar b) (\<lambda>y. Inr (x, y)))"

text \<open>\<^verbatim>\<open>v // 2\<close>: floor division, of an integer or of a float.\<close>

fun floordiv2 :: "hval \<Rightarrow> py_error + hval" where
  "floordiv2 (HInt i) = Inr (HInt (i div 2))"
| "floordiv2 (HReal r) = Inr (HReal (of_int \<lfloor>r / 2\<rfloor>))"
| "floordiv2 (HStr s) = Inl TypeError"
| "floordiv2 (HList vs) = Inl TypeError"

text \<open>\<^verbatim>\<open>v[i]\<close> on a list or a string.\<close>

fun item :: "hval \<Rightarrow> int \<Rightarrow> py_error + hval" where
  "item (HList vs) i = py_nth vs i"
| "item (HStr s) i = then_do (py_nth s i) (\<lambda>c. Inr (HStr [c]))"
| "item (HInt n) i = Inl TypeError"
| "item (HReal r) i = Inl TypeError"

subsection \<open>\<^verbatim>\<open>CRISP.__init__\<close>\<close>

definition empty_crisp :: crisp where
  "empty_crisp = \<lparr>ca = None, ha = None, ca_wvls = None, ha_wvls = None,
                   px_res = None, pointing = None, mid = None\<rparr>"

text \<open>
  Lines 50 to 53 (and their three copies): the wavelengths from \<^verbatim>\<open>spect_pos\<close>, and on
  \<^verbatim>\<open>KeyError\<close> from the data of extension 1 of the file, opened again.
\<close>

definition fits_wvls :: "filesystem \<Rightarrow> string \<Rightarrow> cube \<Rightarrow> py_error + nd" where
  "fits_wvls fs path hdu =
     (case lookup (header hdu) ''spect_pos'' of
        Inr v \<Rightarrow> to_array v
      | Inl e \<Rightarrow>
          then_do (fits_open fs path) (\<lambda>hdus.
          then_do (py_nth hdus 1) (\<lambda>ext.
            (case data ext of None \<Rightarrow> Inl TypeError | Some d \<Rightarrow> Inr d))))"

text \<open>Lines 54 to 56: resolution, pointing and centre pixel from a FITS header.\<close>

definition fits_px_res :: "cube \<Rightarrow> py_error + real" where
  "fits_px_res hdu = then_do (lookup (header hdu) ''CDELT1'') to_scalar"

definition fits_pointing :: "cube \<Rightarrow> py_error + real \<times> real" where
  "fits_pointing hdu =
     then_do (lookup (header hdu) ''CRVAL2'') (\<lambda>y.
     then_do (lookup (header hdu) ''CRVAL1'') (\<lambda>x. to_pair y x))"

definition fits_mid :: "cube \<Rightarrow> py_error + real \<times> real" where
  "fits_mid hdu =
     then_do (lookup (header hdu) ''NAXIS2'') (\<lambda>ny.
     then_do (floordiv2 ny) (\<lambda>y.
     then_do (lookup (header hdu) ''NAXIS1'') (\<lambda>nx.
     then_do (floordiv2 nx) (\<lambda>x. to_pair y x))))"

text \<open>Lines 68 to 71: the \<^verbatim>\<open>ObjDict\<close> made of an HDF5 file.\<close>

definition h5_cube :: "filesystem \<Rightarrow> string \<Rightarrow> py_error + cube" where
  "h5_cube fs path =
     then_do (h5py_File fs path) (\<lambda>(d, h).
     then_do (dataset ''data'' d) (\<lambda>arr.
     then_do (dataset ''header'' h) (\<lambda>docs.
     then_do (py_nth docs 0) (\<lambda>hd.
       Inr \<lparr>header = hd, data = Some arr\<rparr>))))"

definition h5_wvls :: "cube \<Rightarrow> py_error + nd" where
  "h5_wvls c = then_do (lookup (header c) ''spect_pos'') to_array"

definition h5_px_res :: "cube \<Rightarrow> py_error + real" where
  "h5_px_res c = then_do (lookup (header c) ''pixel_scale'') to_scalar"

definition h5_pointing :: "cube \<Rightarrow> py_error + real \<times> real" where
  "h5_pointing c =
     then_do (lookup (header c) ''crval'') (\<lambda>cv.
     then_do (item cv (- 2)) (\<lambda>y.
     then_do (lookup (header c) ''crval'') (\<lambda>cv'.
     then_do (item cv' (- 1)) (\<lambda>x. to_pair y x))))"

text \<open>Line 75 (and 112), for a calcium file: both extents are halved.\<close>

definition h5_mid_ca :: "cube \<Rightarrow> py_error + real \<times> real" where
  "h5_mid_ca c =
     then_do (lookup (header c) ''dimensions'') (\<lambda>dm.
     then_do (item dm (- 2)) (\<lambda>ny.
     then_do (floordiv2 ny) (\<lambda>y.
     then_do (lookup (header c) ''dimensions'') (\<lambda>dm'.
     then_do (item dm' (- 1)) (\<lambda>nx.
     then_do (floordiv2 nx) (\<lambda>x. to_pair y x))))))"

text \<open>Line 84, for an H-alpha file: the second entry is \<^verbatim>\<open>dimensions[-1]\<close> as it is.\<close>

definition h5_mid_ha :: "cube \<Rightarrow> py_error + real \<times> real" where
  "h5_mid_ha c =
     then_do (lookup (header c) ''dimensions'') (\<lambda>dm.
     then_do (item dm (- 2)) (\<lambda>ny.
     then_do (floordiv2 ny) (\<lambda>y.
     then_do (lookup (header c) ''dimensions'') (\<lambda>dm'.
     then_do (item dm' (- 1)) (\<lambda>x. to_pair y x)))))"

text \<open>
  Which reader a path is given to. The first test is \<^verbatim>\<open>".fits" in files\<close>; the second,
  \<^verbatim>\<open>".h5" or ".hdf5" in files\<close>, is Python's \<^verbatim>\<open>".h5" or (".hdf5" in files)\<close>, whose
  first operand is a non-empty string.
\<close>

datatype reader = FITS | HDF5

definition file_kind :: "string \<Rightarrow> reader option" where
  "file_kind path =
     (if is_in ''.fits'' path then Some FITS
      else if truthy ''.h5'' \<or> is_in ''.hdf5'' path then Some HDF5
      else None)"

text \<open>Lines 47 to 84: \<^verbatim>\<open>files\<close> is one path.\<close>

definition init_str :: "filesystem \<Rightarrow> string \<Rightarrow> py_error + crisp" where
  "init_str fs files =
     (case file_kind files of
        Some FITS \<Rightarrow>
          (if is_in ''ca'' files then
             then_do (fits_open fs files) (\<lambda>hdus.
             then_do (py_nth hdus 0) (\<lambda>hdu.
             then_do (fits_wvls fs files hdu) (\<lambda>w.
             then_do (fits_px_res hdu) (\<lambda>p.
             then_do (fits_pointing hdu) (\<lambda>pt.
             then_do (fits_mid hdu) (\<lambda>m.
               Inr (empty_crisp\<lparr>ca := Some hdu, ca_wvls := Some w,
                                 px_res := Some p, pointing := Some pt, mid := Some m\<rparr>)))))))
           else
             then_do (fits_open fs files) (\<lambda>hdus.
             then_do (py_nth hdus 0) (\<lambda>hdu.
             then_do (fits_wvls fs files hdu) (\<lambda>w.
             then_do (fits_px_res hdu) (\<lambda>p.
             then_do (fits_pointing hdu) (\<lambda>pt.
             then_do (fits_mid hdu) (\<lambda>m.
               Inr (empty_crisp\<lparr>ha := Some hdu, ha_wvls := Some w,
                                 px_res := Some p, pointing := Some pt, mid := Some m\<rparr>))))))))
      | Some HDF5 \<Rightarrow>
          (if is_in ''ca'' files then
             then_do (h5_cube fs files) (\<lambda>c.
             then_do (h5_wvls c) (\<lambda>w.
             then_do (h5_px_res c) (\<lambda>p.
             then_do (h5_pointing c) (\<lambda>pt.
             then_do (h5_mid_ca c) (\<lambda>m.
               Inr (empty_crisp\<lparr>ca := Some c, ca_wvls := Some w,
                                 px_res := Some p, pointing := Some pt, mid := Some m\<rparr>))))))
           else
             then_do (h5_cube fs files) (\<lambda>c.
             then_do (h5_wvls c) (\<lambda>w.
             then_do (h5_px_res c) (\<lambda>p.
             then_do (h5_pointing c) (\<lambda>pt.
             then_do (h5_mid_ha c) (\<lambda>m.
               Inr (empty_crisp\<lparr>ha := Some c, ha_wvls := Some w,
                                 px_res := Some p, pointing := Some pt, mid := Some m\<rparr>)))))))
      | None \<Rightarrow> Inr empty_crisp)"

text \<open>
  Lines 87 to 118: one turn of the loop over a list of paths. An H-alpha file sets only
  \<^verbatim>\<open>ha\<close> and \<^verbatim>\<open>ha_wvls\<close> here.
\<close>

definition init_step :: "filesystem \<Rightarrow> crisp \<Rightarrow> string \<Rightarrow> py_error + crisp" where
  "init_step fs self f =
     (case file_kind f of
        Some FITS \<Rightarrow>
          (if is_in ''ca'' f then
             then_do (fits_open fs f) (\<lambda>hdus.
             then_do (py_nth hdus 0) (\<lambda>hdu.
             then_do (fits_wvls fs f hdu) (\<lambda>w.
             then_do (fits_px_res hdu) (\<lambda>p.
             then_do (fits_pointing hdu) (\<lambda>pt.
             then_do (fits_mid hdu) (\<lambda>m.
               Inr (self\<lparr>ca := Some hdu, ca_wvls := Some w,
                          px_res := Some p, pointing := Some pt, mid := Some m\<rparr>)))))))
           else
             then_do (fits_open fs f) (\<lambda>hdus.
             then_do (py_nth hdus 0) (\<lambda>hdu.
             then_do (fits_wvls fs f hdu) (\<lambda>w.
               Inr (self\<lparr>ha := Some hdu, ha_wvls := Some w\<rparr>)))))
      | Some HDF5 \<Rightarrow>
          (if is_in ''ca'' f then
             then_do (h5_cube fs f) (\<lambda>c.
             then_do (h5_wvls c) (\<lambda>w.
             then_do (h5_px_res c) (\<lambda>p.
             then_do (h5_pointing c) (\<lambda>pt.
             then_do (h5_mid_ca c) (\<lambda>m.
               Inr (self\<lparr>ca := Some c, ca_wvls := Some w,
                          px_res := Some p, pointing := Some pt, mid := Some m\<rparr>))))))
           else
             then_do (h5_cube fs f) (\<lambda>c.
             then_do (h5_wvls c) (\<lambda>w.
               Inr (self\<lparr>ha := Some c, ha_wvls := Some w\<rparr>))))
      | None \<Rightarrow> Inr self)"

fun init_list :: "filesystem \<Rightarrow> crisp \<Rightarrow> string list \<Rightarrow> py_error + crisp" where
  "init_list fs self [] = Inr self"
| "init_list fs self (f # rest) = then_do (init_step fs self f) (\<lambda>self'. init_list fs self' rest)"

datatype files = Path string | Paths "string list"

fun init :: "filesystem \<Rightarrow> files \<Rightarrow> py_error + crisp" where
  "init fs (Path p) = init_str fs p"
| "init fs (Paths ps) = init_list fs empty_crisp ps"

subsection \<open>\<^verbatim>\<open>CRISP.__str__\<close>\<close>

text \<open>
  The keys of \<^verbatim>\<open>self.__dict__\<close>: the two constants, and every attribute that has been set.
\<close>

definition dict_keys :: "crisp \<Rightarrow> string list" where
  "dict_keys self =
     [''mm_sun'', ''ang_sun'']
     @ (if ca self = None then [] else [''ca''])
     @ (if ca_wvls self = None then [] else [''ca_wvls''])
     @ (if ha self = None then [] else [''ha''])
     @ (if ha_wvls self = None then [] else [''ha_wvls''])
     @ (if px_res self = None then [] else [''px_res''])
     @ (if pointing self = None then [] else [''pointing''])
     @ (if mid self = None then [] else [''mid''])"

definition in_dict :: "string \<Rightarrow> crisp \<Rightarrow> bool" where
  "in_dict name self = (name \<in> set (dict_keys self))"

text \<open>
  The three conditions of lines 121, 142 and 159 as Python parses them: \<^verbatim>\<open>in\<close> and
  \<^verbatim>\<open>not\<close> bind tighter than \<^verbatim>\<open>and\<close>, so \<^verbatim>\<open>"ca" and "ha" in d\<close> is
  \<^verbatim>\<open>"ca" and ("ha" in d)\<close>, \<^verbatim>\<open>"ca" and not "ha" in d\<close> is \<^verbatim>\<open>"ca" and (not ("ha" in d))\<close>
  and \<^verbatim>\<open>not "ca" and "ha" in d\<close> is \<^verbatim>\<open>(not "ca") and ("ha" in d)\<close>.
\<close>

datatype branch = BothLines | CalciumOnly | HalphaOnly

definition str_branch :: "crisp \<Rightarrow> branch option" where
  "str_branch self =
     (if truthy ''ca'' \<and> in_dict ''ha'' self then Some BothLines
      else if truthy ''ca'' \<and> \<not> in_dict ''ha'' self then Some CalciumOnly
      else if \<not> truthy ''ca'' \<and> in_dict ''ha'' self then Some HalphaOnly
      else None)"

text \<open>
  The sentence returned is represented by the values put into it: date, time, the
  elements and numbers of wavelengths of the lines described, the pointing, and which
  of the two endings (Stokes I only, or all Stokes parameters) closes it.
\<close>

record description =
  d_branch :: branch
  d_date :: hval
  d_time :: hval
  d_elements :: "hval list"
  d_samples :: "hval list"
  d_pointing :: "hval \<times> hval"
  d_all_stokes :: bool

text \<open>\<^verbatim>\<open>v[a:b]\<close> on a string or a list, with Python's clamping of the bounds.\<close>

definition clamp_bound :: "int \<Rightarrow> nat \<Rightarrow> nat" where
  "clamp_bound i n = (if i < 0 then nat (max 0 (int n + i)) else min (nat i) n)"

definition py_slice :: "'a list \<Rightarrow> int \<Rightarrow> int \<Rightarrow> 'a list" where
  "py_slice xs a b =
     (let lo = clamp_bound a (length xs); hi = clamp_bound b (length xs)
      in take (hi - lo) (drop lo xs))"

fun slice :: "hval \<Rightarrow> int \<Rightarrow> int \<Rightarrow> py_error + hval" where
  "slice (HStr s) a b = Inr (HStr (py_slice s a b))"
| "slice (HList vs) a b = Inr (HList (py_slice vs a b))"
| "slice (HInt n) a b = Inl TypeError"
| "slice (HReal r) a b = Inl TypeError"

text \<open>\<^verbatim>\<open>round(v, 3)\<close>, in exact arithmetic.\<close>

fun round3 :: "hval \<Rightarrow> py_error + hval" where
  "round3 (HInt i) = Inr (HInt i)"
| "round3 (HReal r) = Inr (HReal (np_round (r * 1000) / 1000))"
| "round3 (HStr s) = Inl TypeError"
| "round3 (HList vs) = Inl TypeError"

text \<open>\<^verbatim>\<open>try: ... except KeyError: ...\<close>\<close>

definition except_KeyError :: "py_error + 'a \<Rightarrow> py_error + 'a \<Rightarrow> py_error + 'a" where
  "except_KeyError body handler =
     (case body of Inl (KeyError k) \<Rightarrow> handler | r \<Rightarrow> r)"

text \<open>
  What the \<^verbatim>\<open>try\<close> blocks read of one line under the FITS keys, and what the handlers
  read under the HDF5 keys: date, time, element, number of wavelengths.
\<close>

definition fits_line :: "header \<Rightarrow> py_error + hval \<times> hval" where
  "fits_line h =
     then_do (lookup h ''WDESC1'') (\<lambda>el.
     then_do (lookup h ''NAXIS3'') (\<lambda>n. Inr (el, n)))"

definition fits_when :: "header \<Rightarrow> py_error + hval \<times> hval" where
  "fits_when h =
     then_do (lookup h ''DATE-AVG'') (\<lambda>d.
     then_do (slice d 0 10) (\<lambda>date.
     then_do (lookup h ''DATE-AVG'') (\<lambda>d'.
     then_do (slice d' 11 (- 4)) (\<lambda>time. Inr (date, time)))))"

definition fits_where :: "header \<Rightarrow> py_error + hval \<times> hval" where
  "fits_where h =
     then_do (lookup h ''CRVAL1'') (\<lambda>x.
     then_do (round3 x) (\<lambda>x'.
     then_do (lookup h ''CRVAL2'') (\<lambda>y.
     then_do (round3 y) (\<lambda>y'. Inr (x', y')))))"

definition h5_line :: "header \<Rightarrow> py_error + hval \<times> hval" where
  "h5_line h =
     then_do (lookup h ''element'') (\<lambda>el.
     then_do (lookup h ''dimensions'') (\<lambda>dm.
     then_do (item dm (- 3)) (\<lambda>n. Inr (el, n))))"

definition h5_when :: "header \<Rightarrow> py_error + hval \<times> hval" where
  "h5_when h =
     then_do (lookup h ''date-obs'') (\<lambda>date.
     then_do (lookup h ''time-obs'') (\<lambda>time. Inr (date, time)))"

definition h5_where :: "header \<Rightarrow> py_error + hval \<times> hval" where
  "h5_where h =
     then_do (lookup h ''crval'') (\<lambda>cv.
     then_do (item cv (- 1)) (\<lambda>x.
     then_do (lookup h ''crval'') (\<lambda>cv'.
     then_do (item cv' (- 2)) (\<lambda>y. Inr (x, y)))))"

text \<open>
  The closing test on \<^verbatim>\<open>len(d.shape)\<close>: 3 and 4 choose the ending, any other number
  of axes lets the method fall off its end.
\<close>

definition ending :: "nd option \<Rightarrow> (bool \<Rightarrow> description) \<Rightarrow> py_error + description option" where
  "ending d sentence =
     then_do (shape_len d) (\<lambda>n.
       if n = 3 then Inr (Some (sentence False))
       else if n = 4 then Inr (Some (sentence True))
       else Inr None)"

definition CRISP_str :: "crisp \<Rightarrow> py_error + description option" where
  "CRISP_str self =
     (case str_branch self of
        Some BothLines \<Rightarrow>
          then_do
            (except_KeyError
               (then_do (attr ''ca'' (ca self)) (\<lambda>c.
                then_do (fits_when (header c)) (\<lambda>w.
                then_do (fits_line (header c)) (\<lambda>l1.
                then_do (attr ''ha'' (ha self)) (\<lambda>h.
                then_do (fits_line (header h)) (\<lambda>l2.
                then_do (fits_where (header c)) (\<lambda>p. Inr (w, l1, l2, p))))))))
               (then_do (attr ''ca'' (ca self)) (\<lambda>c.
                then_do (h5_when (header c)) (\<lambda>w.
                then_do (h5_line (header c)) (\<lambda>l1.
                then_do (attr ''ha'' (ha self)) (\<lambda>h.
                then_do (h5_line (header h)) (\<lambda>l2.
                then_do (h5_where (header c)) (\<lambda>p. Inr (w, l1, l2, p)))))))))
            (\<lambda>(w, l1, l2, p).
               then_do (attr ''ca'' (ca self)) (\<lambda>c.
                 ending (data c) (\<lambda>s.
                   \<lparr>d_branch = BothLines, d_date = fst w, d_time = snd w,
                    d_elements = [fst l1, fst l2], d_samples = [snd l1, snd l2],
                    d_pointing = p, d_all_stokes = s\<rparr>)))
      | Some CalciumOnly \<Rightarrow>
          then_do
            (except_KeyError
               (then_do (attr ''ca'' (ca self)) (\<lambda>c.
                then_do (fits_when (header c)) (\<lambda>w.
                then_do (fits_line (header c)) (\<lambda>l1.
                then_do (fits_where (header c)) (\<lambda>p. Inr (w, l1, p))))))
               (then_do (attr ''ca'' (ca self)) (\<lambda>c.
                then_do (h5_when (header c)) (\<lambda>w.
                then_do (h5_line (header c)) (\<lambda>l1.
                then_do (h5_where (header c)) (\<lambda>p. Inr (w, l1, p)))))))
            (\<lambda>(w, l1, p).
               then_do (attr ''ca'' (ca self)) (\<lambda>c.
                 ending (data c) (\<lambda>s.
                   \<lparr>d_branch = CalciumOnly, d_date = fst w, d_time = snd w,
                    d_elements = [fst l1], d_samples = [snd l1],
                    d_pointing = p, d_all_stokes = s\<rparr>)))
      | Some HalphaOnly \<Rightarrow>
          then_do
            (except_KeyError
               (then_do (attr ''ha'' (ha self)) (\<lambda>h.
                then_do (fits_when (header h)) (\<lambda>w.
                then_do (fits_line (header h)) (\<lambda>l1.
                then_do (fits_where (header h)) (\<lambda>p. Inr (w, l1, p))))))
               (then_do (attr ''ha'' (ha self)) (\<lambda>h.
                then_do (h5_when (header h)) (\<lambda>w.
                then_do (h5_line (header h)) (\<lambda>l1.
                then_do (h5_where (header h)) (\<lambda>p. Inr (w, l1, p)))))))
            (\<lambda>(w, l1, p).
               then_do (attr ''ha'' (ha self)) (\<lambda>h.
                 ending (data h) (\<lambda>s.
                   \<lparr>d_branch = HalphaOnly, d_date = fst w, d_time = snd w,
                    d_elements = [fst l1], d_samples = [snd l1],
                    d_pointing = p, d_all_stokes = s\<rparr>)))
      | None \<Rightarrow> Inr None)"

subsection \<open>\<^verbatim>\<open>InversionSlicingMixin._slice\<close>\<close>

text \<open>
  The object the mixin is mixed into has the attributes \<^verbatim>\<open>ne\<close>, \<^verbatim>\<open>temp\<close>, \<^verbatim>\<open>vel\<close>
  and \<^verbatim>\<open>err\<close>, each an object that is subscripted with the index expression: an
  attribute is given by what its \<^verbatim>\<open>__getitem__\<close> answers, for any type of index
  expression and of result. \<^verbatim>\<open>_slice_wcs\<close> is the method of the parent class of the
  library, taken as a function from the index expression. A name that is not a local
  variable is looked up among the names bound at the top of \<^verbatim>\<open>mixin.py\<close> (Python's
  builtins hold neither \<^verbatim>\<open>z\<close> nor \<^verbatim>\<open>header\<close>), and raises \<^verbatim>\<open>NameError\<close> when it is not
  there.
\<close>

record ('i, 'v, 'w) inversion =
  ne :: "('i \<Rightarrow> py_error + 'v) option"
  temp :: "('i \<Rightarrow> py_error + 'v) option"
  vel :: "('i \<Rightarrow> py_error + 'v) option"
  err :: "('i \<Rightarrow> py_error + 'v) option"
  slice_wcs :: "'i \<Rightarrow> py_error + 'w"

datatype ('v, 'w) kwarg =
    Array 'v
  | Wcs 'w
  | Dict "(string \<times> ('v, 'w) kwarg) list"
  | Global string

definition mixin_globals :: "string list" where
  "mixin_globals = [''NDSlicingMixin'', ''ObjDict'', ''CRISPSlicingMixin'',
                    ''CRISPSequenceSlicingMixin'', ''InversionSlicingMixin'']"

definition load_name :: "string list \<Rightarrow> string \<Rightarrow> py_error + ('v, 'w) kwarg" where
  "load_name locals name =
     (if name \<in> set locals \<or> name \<in> set mixin_globals then Inr (Global name)
      else Inl (NameError name))"

text \<open>\<^verbatim>\<open>self.a[item]\<close>.\<close>

definition sliced :: "string \<Rightarrow> ('i \<Rightarrow> py_error + 'v) option \<Rightarrow> 'i \<Rightarrow> py_error + 'v" where
  "sliced name field i = then_do (attr name field) (\<lambda>a. a i)"

text \<open>
  Lines 47 to 56. The body fills the dictionary \<^verbatim>\<open>kwargs\<close> and ends after the
  assignment of line 56: there is no \<^verbatim>\<open>return\<close>, so a call that got that far would
  return \<^verbatim>\<open>None\<close> and not the dictionary.
\<close>

definition InversionSlicingMixin_slice ::
    "('i, 'v, 'w) inversion \<Rightarrow> 'i \<Rightarrow> py_error + (string \<times> ('v, 'w) kwarg) list option" where
  "InversionSlicingMixin_slice self i =
     then_do (sliced ''ne'' (ne self) i) (\<lambda>a.
     then_do (sliced ''temp'' (temp self) i) (\<lambda>b.
     then_do (sliced ''vel'' (vel self) i) (\<lambda>c.
     then_do (sliced ''err'' (err self) i) (\<lambda>d.
     then_do (slice_wcs self i) (\<lambda>w.
     then_do (load_name [''self'', ''item'', ''kwargs''] ''z'') (\<lambda>z.
     then_do (load_name [''self'', ''item'', ''kwargs''] ''header'') (\<lambda>hd.
       (let kwargs = [(''filename'', Dict [(''ne'', Array a), (''temperature'', Array b),
                                            (''vel'', Array c), (''mad'', Array d)]),
                      (''wcs'', Wcs w), (''z'', z), (''header'', hd)]
                     :: (string \<times> ('v, 'w) kwarg) list
        in Inr None))))))))"

section \<open>Examples\<close>

text \<open>
  The accessor of the specification's examples: a resolution of 0.059 arcseconds per
  pixel, the pointing (100, 200) and the centre pixel (512, 512).
\<close>

definition example_crisp :: crisp where
  "example_crisp = \<lparr>ca = None, ha = None, ca_wvls = None, ha_wvls = None,
                     px_res = Some (59 / 1000), pointing = Some (100, 200),
                     mid = Some (512, 512)\<rparr>"

text \<open>
  A small cube of three wavelengths over a frame of two by two pixels, and an accessor
  holding it as both lines.
\<close>

definition example_data :: nd where
  "example_data = Arr [Arr [Arr [Num 1, Num 2], Arr [Num 3, Num 4]],
                       Arr [Arr [Num 5, Num 6], Arr [Num 7, Num 8]],
                       Arr [Arr [Num 9, Num 10], Arr [Num 11, Num 12]]]"

definition example_cube :: cube where
  "example_cube = \<lparr>header = Map.empty, data = Some example_data\<rparr>"

definition example_obs :: crisp where
  "example_obs = \<lparr>ca = Some example_cube, ha = Some example_cube,
                   ca_wvls = Some (Arr [Num 8542, Num 8543, Num 8544]),
                   ha_wvls = Some (Arr [Num 6562, Num 6563, Num 6564]),
                   px_res = Some (59 / 1000), pointing = Some (100, 200), mid = Some (1, 1)\<rparr>"

text \<open>
  Files on disk: H-alpha and calcium cubes in both formats. The FITS header of the
  calcium files has no \<^verbatim>\<open>spect_pos\<close>; \<^verbatim>\<open>ca_8542.fits\<close> has the primary extension
  only, \<^verbatim>\<open>ca_8542_ext.fits\<close> a second extension without data. \<^verbatim>\<open>obs.dat\<close> is an HDF5
  file whose name has none of the extensions.
\<close>

definition fits_header :: header where
  "fits_header = [''CDELT1'' \<mapsto> HReal (592 / 10000), ''CRVAL1'' \<mapsto> HReal 10,
                  ''CRVAL2'' \<mapsto> HReal (- 5), ''NAXIS1'' \<mapsto> HInt 1000,
                  ''NAXIS2'' \<mapsto> HInt 1000, ''NAXIS3'' \<mapsto> HInt 3,
                  ''DATE-AVG'' \<mapsto> HStr ''2014-09-06T09:15:30.250'',
                  ''WDESC1'' \<mapsto> HStr ''6563'']"

definition h5_header :: header where
  "h5_header = [''pixel_scale'' \<mapsto> HReal (592 / 10000),
                ''crval'' \<mapsto> HList [HReal 6563, HReal (- 5), HReal 10],
                ''dimensions'' \<mapsto> HList [HInt 3, HInt 1000, HInt 1200],
                ''spect_pos'' \<mapsto> HList [HReal 6562, HReal 6563, HReal 6564],
                ''date-obs'' \<mapsto> HStr ''2014-09-06'', ''time-obs'' \<mapsto> HStr ''09:15:30'',
                ''element'' \<mapsto> HStr ''6563'']"

definition example_fs :: filesystem where
  "example_fs =
     [''halpha.fits'' \<mapsto>
        FitsFile [\<lparr>header = fits_header(''spect_pos'' \<mapsto> HList [HReal 6562, HReal 6563, HReal 6564]),
                    data = Some example_data\<rparr>],
      ''ca_8542.fits'' \<mapsto> FitsFile [\<lparr>header = fits_header, data = Some example_data\<rparr>],
      ''ca_8542_ext.fits'' \<mapsto>
        FitsFile [\<lparr>header = fits_header, data = Some example_data\<rparr>,
                  \<lparr>header = Map.empty, data = None\<rparr>],
      ''halpha.h5'' \<mapsto> Hdf5File (Some example_data) (Some [h5_header]),
      ''ca_8542.h5'' \<mapsto> Hdf5File (Some example_data) (Some [h5_header]),
      ''obs.dat'' \<mapsto> Hdf5File (Some example_data) (Some [h5_header])]"

text \<open>An inversion whose four arrays are the example cube.\<close>

definition example_inversion :: "(idx list, nd, unit) inversion" where
  "example_inversion = \<lparr>ne = Some (getitem example_data), temp = Some (getitem example_data),
                         vel = Some (getitem example_data), err = Some (getitem example_data),
                         slice_wcs = (\<lambda>i. Inr ())\<rparr>"

section \<open>Properties\<close>

subsection \<open>Substrings\<close>

text \<open>\<open>is_in\<close> is the test for a contiguous substring.\<close>

lemma starts_with_iff: "starts_with s p \<longleftrightarrow> (\<exists>q. s = p @ q)"
  by (induction s p rule: starts_with.induct) auto

lemma is_in_iff: "is_in needle s \<longleftrightarrow> (\<exists>p q. s = p @ needle @ q)"
proof (induction s)
  case Nil
  then show ?case by simp
next
  case (Cons c cs)
  show ?case
  proof
    assume "is_in needle (c # cs)"
    then consider "starts_with (c # cs) needle" | "is_in needle cs" by auto
    then show "\<exists>p q. c # cs = p @ needle @ q"
    proof cases
      case 1
      then obtain q where "c # cs = needle @ q" by (auto simp: starts_with_iff)
      then have "c # cs = [] @ needle @ q" by simp
      then show ?thesis by blast
    next
      case 2
      then obtain p q where "cs = p @ needle @ q" using Cons.IH by blast
      then have "c # cs = (c # p) @ needle @ q" by simp
      then show ?thesis by blast
    qed
  next
    assume "\<exists>p q. c # cs = p @ needle @ q"
    then obtain p q where pq: "c # cs = p @ needle @ q" by blast
    show "is_in needle (c # cs)"
    proof (cases p)
      case Nil
      with pq have "starts_with (c # cs) needle" by (auto simp: starts_with_iff)
      then show ?thesis by simp
    next
      case (Cons d ds)
      with pq have "cs = ds @ needle @ q" by simp
      then have "is_in needle cs" using Cons.IH by blast
      then show ?thesis by simp
    qed
  qed
qed

subsection \<open>Sequencing and rounding\<close>

lemma then_do_Inr [simp]: "then_do (Inr x) f = f x"
  by (simp add: then_do_def)

lemma then_do_Inl [simp]: "then_do (Inl e) f = Inl e"
  by (simp add: then_do_def)

lemma attr_Some [simp]: "attr name (Some v) = Inr v"
  by (simp add: attr_def)

lemma attr_None [simp]: "attr name None = Inl (AttributeError name)"
  by (simp add: attr_def)

lemma np_round_near: "\<bar>np_round x - x\<bar> \<le> 1 / 2"
  unfolding np_round_def Let_def by (auto simp: abs_le_iff)

lemma np_round_whole: "x \<in> \<int> \<Longrightarrow> np_round x = x"
  unfolding np_round_def Let_def by (auto elim!: Ints_cases)

lemma elems_vmap: "elems (vmap f v) = map f (elems v)"
  by (cases v) auto

lemma fits_pair_vmap [simp]: "fits_pair (vmap f v) = fits_pair v"
  by (cases v) auto

lemma broadcast_pair_fits:
  "fits_pair v \<Longrightarrow> \<exists>a b. broadcast f v (pair_val p) = Inr (Vec [a, b])"
  by (cases v) (auto simp: pair_val_def length_Suc_conv numeral_2_eq_2)

lemma broadcast_vec2_pair:
  "broadcast f (Vec [a, b]) (pair_val p) = Inr (Vec [f a (fst p), f b (snd p)])"
  by (simp add: pair_val_def)

subsection \<open>The branches of \<^verbatim>\<open>unit_conversion\<close>\<close>

lemma unit_conversion_pix_plain:
  "unit_conversion self coord ''pix'' False =
     (case qunit coord of
        Pix \<Rightarrow> Inr (Some coord)
      | Arcsec \<Rightarrow>
          then_do (attr ''px_res'' (px_res self)) (\<lambda>p.
            Inr (Some \<lparr>qval = vmap np_round (vmap (\<lambda>c. c / p) (qval coord)), qunit = Pix\<rparr>))
      | Megameter \<Rightarrow>
          then_do (attr ''px_res'' (px_res self)) (\<lambda>p.
            Inr (Some \<lparr>qval = vmap np_round (vmap (\<lambda>c. (c * ang_sun / mm_sun) / p) (qval coord)),
                       qunit = Pix\<rparr>)))"
  unfolding unit_conversion_def by (subst unit_conversion_in.simps) simp

lemma unit_conversion_arcsec_plain:
  "unit_conversion self coord ''arcsec'' False =
     (case qunit coord of
        Pix \<Rightarrow>
          then_do (attr ''px_res'' (px_res self)) (\<lambda>p.
            Inr (Some \<lparr>qval = vmap (\<lambda>c. c * p) (qval coord), qunit = Arcsec\<rparr>))
      | Arcsec \<Rightarrow> Inr (Some coord)
      | Megameter \<Rightarrow>
          Inr (Some \<lparr>qval = vmap (\<lambda>c. c * (ang_sun / mm_sun)) (qval coord), qunit = Arcsec\<rparr>))"
  unfolding unit_conversion_def by (subst unit_conversion_in.simps) simp

lemma unit_conversion_pix_arcsec_centred:
  "qunit coord = Pix \<Longrightarrow>
   unit_conversion self coord ''arcsec'' True =
     then_do (attr ''mid'' (mid self)) (\<lambda>m.
     then_do (broadcast (-) (qval coord) (pair_val m)) (\<lambda>d.
     then_do (attr ''px_res'' (px_res self)) (\<lambda>p.
     then_do (attr ''pointing'' (pointing self)) (\<lambda>pt.
     then_do (broadcast (+) (vmap (\<lambda>c. c * p) d) (pair_val pt)) (\<lambda>r.
       Inr (Some \<lparr>qval = r, qunit = Arcsec\<rparr>))))))"
  unfolding unit_conversion_def by (subst unit_conversion_in.simps) simp

lemma unit_conversion_Mm_arcsec_centred:
  "qunit coord = Megameter \<Longrightarrow>
   unit_conversion self coord ''arcsec'' True =
     (case unit_conversion self coord ''pix'' False of
        Inl e \<Rightarrow> Inl e
      | Inr None \<Rightarrow> Inl (AttributeError ''unit'')
      | Inr (Some px) \<Rightarrow> unit_conversion self px ''arcsec'' True)"
  unfolding unit_conversion_def by (subst unit_conversion_in.simps) simp

text \<open>The two uncentred conversions between pixels and arcseconds, in any arithmetic.\<close>

lemma unit_conversion_in_pix_arcsec_plain:
  assumes "qunit coord = Pix" and "px_res self = Some p"
  shows "unit_conversion_in fl self coord ''arcsec'' False
           = Inr (Some \<lparr>qval = vmap (\<lambda>c. fl (c * p)) (qval coord), qunit = Arcsec\<rparr>)"
  using assms by (subst unit_conversion_in.simps) simp

lemma unit_conversion_in_arcsec_pix_plain:
  assumes "qunit coord = Arcsec" and "px_res self = Some p"
  shows "unit_conversion_in fl self coord ''pix'' False
           = Inr (Some \<lparr>qval = vmap np_round (vmap (\<lambda>c. fl (c / p)) (qval coord)), qunit = Pix\<rparr>)"
  using assms by (subst unit_conversion_in.simps) simp

text \<open>
  The sibling of line 231 on line 237, from arcseconds to megametres: its outer call
  asks for \<^verbatim>\<open>"megameter"\<close> with \<^verbatim>\<open>centre=False\<close>, where the target is spelled \<^verbatim>\<open>"Mm"\<close>,
  so no branch matches and the result is \<^verbatim>\<open>None\<close>.
\<close>

lemma unit_conversion_arcsec_megameter_centred:
  assumes "qunit coord = Arcsec"
  shows "unit_conversion self coord ''megameter'' True =
           (case unit_conversion self coord ''pix'' True of Inl e \<Rightarrow> Inl e | Inr px \<Rightarrow> Inr None)"
proof -
  have none: "unit_conversion_in fl self q ''megameter'' False = Inr None" for fl q
    by (subst unit_conversion_in.simps) simp
  show ?thesis
    using assms unfolding unit_conversion_def
    by (subst unit_conversion_in.simps) (simp add: none split: sum.splits option.splits)
qed

subsection \<open>Unit conversion\<close>

text \<open>
  C2. For a coordinate in megametres, \<^verbatim>\<open>unit_conversion\<close> to arcseconds with
  \<^verbatim>\<open>centre=True\<close> is the composition of two calls: the uncentred conversion of the
  coordinate to pixels, then the centred conversion of that result to arcseconds. The
  result is never \<^verbatim>\<open>None\<close>; when resolution, pointing and centre pixel are set and the
  coordinate broadcasts against a pair, it is a pair of arcseconds.
\<close>

theorem unit_conversion_Mm_to_arcsec_centred:
  assumes "qunit coord = Megameter"
  shows "unit_conversion self coord ''arcsec'' True =
           (case unit_conversion self coord ''pix'' False of
              Inl e \<Rightarrow> Inl e
            | Inr None \<Rightarrow> Inl (AttributeError ''unit'')
            | Inr (Some px) \<Rightarrow> unit_conversion self px ''arcsec'' True)
         \<and> unit_conversion self coord ''arcsec'' True \<noteq> Inr None
         \<and> (px_res self \<noteq> None \<and> pointing self \<noteq> None \<and> mid self \<noteq> None
              \<and> fits_pair (qval coord)
              \<longrightarrow> (\<exists>y x. unit_conversion self coord ''arcsec'' True
                            = Inr (Some \<lparr>qval = Vec [y, x], qunit = Arcsec\<rparr>)))"
proof (intro conjI impI)
  show two_step: "unit_conversion self coord ''arcsec'' True =
           (case unit_conversion self coord ''pix'' False of
              Inl e \<Rightarrow> Inl e
            | Inr None \<Rightarrow> Inl (AttributeError ''unit'')
            | Inr (Some px) \<Rightarrow> unit_conversion self px ''arcsec'' True)"
    using assms by (rule unit_conversion_Mm_arcsec_centred)
  show "unit_conversion self coord ''arcsec'' True \<noteq> Inr None"
  proof (cases "px_res self")
    case None
    then show ?thesis
      using assms by (simp add: two_step unit_conversion_pix_plain)
  next
    case (Some p)
    define v where "v = vmap np_round (vmap (\<lambda>c. (c * ang_sun / mm_sun) / p) (qval coord))"
    have inner: "unit_conversion self coord ''pix'' False = Inr (Some \<lparr>qval = v, qunit = Pix\<rparr>)"
      using assms Some by (simp add: unit_conversion_pix_plain v_def)
    have "unit_conversion self \<lparr>qval = v, qunit = Pix\<rparr> ''arcsec'' True \<noteq> Inr None"
      by (simp add: unit_conversion_pix_arcsec_centred then_do_def attr_def
               split: option.splits sum.splits)
    then show ?thesis by (simp add: two_step inner)
  qed
next
  assume given: "px_res self \<noteq> None \<and> pointing self \<noteq> None \<and> mid self \<noteq> None
                 \<and> fits_pair (qval coord)"
  then obtain p pt m where p: "px_res self = Some p" and pt: "pointing self = Some pt"
    and m: "mid self = Some m" by auto
  define v where "v = vmap np_round (vmap (\<lambda>c. (c * ang_sun / mm_sun) / p) (qval coord))"
  have inner: "unit_conversion self coord ''pix'' False = Inr (Some \<lparr>qval = v, qunit = Pix\<rparr>)"
    using assms p by (simp add: unit_conversion_pix_plain v_def)
  have "fits_pair v" using given by (simp add: v_def)
  then obtain a b where ab: "broadcast (-) v (pair_val m) = Inr (Vec [a, b])"
    using broadcast_pair_fits by blast
  have "unit_conversion self \<lparr>qval = v, qunit = Pix\<rparr> ''arcsec'' True
        = Inr (Some \<lparr>qval = Vec [a * p + fst pt, b * p + snd pt], qunit = Arcsec\<rparr>)"
    by (simp add: unit_conversion_pix_arcsec_centred p pt m ab broadcast_vec2_pair)
  then show "\<exists>y x. unit_conversion self coord ''arcsec'' True
                            = Inr (Some \<lparr>qval = Vec [y, x], qunit = Arcsec\<rparr>)"
    using assms by (simp add: unit_conversion_Mm_arcsec_centred inner)
qed

theorem unit_conversion_Mm_to_arcsec_centred_witness:
  "qunit \<lparr>qval = Vec [1, 2], qunit = Megameter\<rparr> = Megameter
   \<and> px_res example_crisp \<noteq> None \<and> pointing example_crisp \<noteq> None \<and> mid example_crisp \<noteq> None
   \<and> fits_pair (qval \<lparr>qval = Vec [1, 2], qunit = Megameter\<rparr>)
   \<and> unit_conversion example_crisp \<lparr>qval = Vec [1, 2], qunit = Megameter\<rparr> ''arcsec'' True \<noteq> Inr None
   \<and> (\<exists>y x. unit_conversion example_crisp \<lparr>qval = Vec [1, 2], qunit = Megameter\<rparr> ''arcsec'' True
               = Inr (Some \<lparr>qval = Vec [y, x], qunit = Arcsec\<rparr>))
   \<and> unit_conversion example_crisp \<lparr>qval = Vec [1, 2], qunit = Megameter\<rparr> ''arcsec'' True
       = Inr (Some \<lparr>qval = Vec [71149 / 1000, 34513 / 200], qunit = Arcsec\<rparr>)"
proof -
  let ?c = "\<lparr>qval = Vec [1, 2], qunit = Megameter\<rparr>"
  have unit: "qunit ?c = Megameter" by simp
  have given: "px_res example_crisp \<noteq> None \<and> pointing example_crisp \<noteq> None
               \<and> mid example_crisp \<noteq> None \<and> fits_pair (qval ?c)"
    by (simp add: example_crisp_def)
  have computed: "unit_conversion example_crisp ?c ''arcsec'' True
                    = Inr (Some \<lparr>qval = Vec [71149 / 1000, 34513 / 200], qunit = Arcsec\<rparr>)"
    by (simp add: unit_conversion_Mm_arcsec_centred unit_conversion_pix_plain
          unit_conversion_pix_arcsec_centred example_crisp_def np_round_def Let_def
          ang_sun_def mm_sun_def pair_val_def)
  show ?thesis
    using unit_conversion_Mm_to_arcsec_centred [OF unit, of example_crisp] unit given computed
    by blast
qed

text \<open>
  C7. Whatever the pointing, the centre pixel and the resolution of the accessor,
  converting the centre pixel (in pixels) to arcseconds with \<^verbatim>\<open>centre=True\<close> yields
  exactly the pointing.
\<close>

theorem unit_conversion_mid_is_pointing:
  assumes "px_res self = Some p" and "pointing self = Some pt" and "mid self = Some m"
  shows "unit_conversion self \<lparr>qval = pair_val m, qunit = Pix\<rparr> ''arcsec'' True
           = Inr (Some \<lparr>qval = pair_val pt, qunit = Arcsec\<rparr>)"
  using assms by (simp add: unit_conversion_pix_arcsec_centred pair_val_def)

theorem unit_conversion_mid_is_pointing_witness:
  "px_res example_crisp = Some (59 / 1000) \<and> pointing example_crisp = Some (100, 200)
   \<and> mid example_crisp = Some (512, 512)
   \<and> unit_conversion example_crisp \<lparr>qval = Vec [512, 512], qunit = Pix\<rparr> ''arcsec'' True
       = Inr (Some \<lparr>qval = Vec [100, 200], qunit = Arcsec\<rparr>)"
  using unit_conversion_mid_is_pointing [of example_crisp "59 / 1000" "(100, 200)" "(512, 512)"]
  by (simp add: example_crisp_def pair_val_def)

subsection \<open>Rounding to float64\<close>

text \<open>Powers of two, and the exponent of a number.\<close>

lemma pow2_powr: "pow2 k = 2 powr (of_int k)"
proof (cases "0 \<le> k")
  case True
  then have "2 powr (of_int k) = (2::real) powr (real (nat k))" by simp
  also have "\<dots> = 2 ^ nat k" by (simp only: powr_realpow zero_less_numeral)
  finally show ?thesis using True by (simp add: pow2_def)
next
  case False
  then have "2 powr (of_int k) = (2::real) powr (- real (nat (- k)))" by simp
  also have "\<dots> = 1 / 2 powr (real (nat (- k)))" by (simp only: powr_minus_divide)
  also have "\<dots> = 1 / 2 ^ nat (- k)" by (simp only: powr_realpow zero_less_numeral)
  finally show ?thesis using False by (simp add: pow2_def)
qed

lemma pow2_pos [simp]: "0 < pow2 k"
  by (simp add: pow2_powr)

lemma pow2_nonneg [simp]: "0 \<le> pow2 k"
  by (simp add: less_imp_le)

lemma pow2_not_le_zero [simp]: "\<not> pow2 k \<le> 0"
  by (simp add: not_le)

lemma pow2_add: "pow2 (j + k) = pow2 j * pow2 k"
  by (simp add: pow2_powr powr_add)

lemma pow2_mono: "j \<le> k \<Longrightarrow> pow2 j \<le> pow2 k"
  by (simp add: pow2_powr)

lemma pow2_le_abs_iff: "t \<noteq> 0 \<Longrightarrow> pow2 k \<le> \<bar>t\<bar> \<longleftrightarrow> k \<le> \<lfloor>log 2 \<bar>t\<bar>\<rfloor>"
  by (simp add: pow2_powr le_floor_iff le_log_iff)

lemma f64_zero [simp]: "f64 0 = 0"
  by (simp add: f64_def)

lemma np_round_whole_number: "np_round z \<in> \<int>"
  by (simp add: np_round_def Let_def)

lemma np_round_unique:
  assumes "c \<in> \<int>" and "\<bar>z - c\<bar> < 1 / 2"
  shows "np_round z = c"
proof -
  from assms(1) obtain k :: int where c: "c = of_int k" by (auto elim: Ints_cases)
  have near: "z - of_int k < 1 / 2 \<and> - (z - of_int k) < 1 / 2"
    using assms(2) unfolding c by (simp only: abs_less_iff)
  then have "of_int (k - 1) \<le> z" and "z < of_int (k + 1)" by simp_all
  then have "k - 1 \<le> \<lfloor>z\<rfloor>" and "\<lfloor>z\<rfloor> < k + 1"
    by (simp_all only: le_floor_iff floor_less_iff)
  then have "\<lfloor>z\<rfloor> = k \<or> \<lfloor>z\<rfloor> = k - 1" by linarith
  then show ?thesis
  proof
    assume "\<lfloor>z\<rfloor> = k"
    then show ?thesis using near by (simp add: np_round_def Let_def c)
  next
    assume f: "\<lfloor>z\<rfloor> = k - 1"
    have "1 / 2 < z - of_int (k - 1)" using near by simp
    then show ?thesis using f by (simp add: np_round_def Let_def c)
  qed
qed

text \<open>The error of one rounding: half a unit in the last place.\<close>

lemma f64_error:
  assumes "t \<noteq> 0"
  shows "\<bar>f64 t - t\<bar> \<le> pow2 (max \<lfloor>log 2 \<bar>t\<bar>\<rfloor> (- 1022) - 52) / 2"
proof -
  define q where "q = pow2 (max \<lfloor>log 2 \<bar>t\<bar>\<rfloor> (- 1022) - 52)"
  have q: "0 < q" by (simp add: q_def)
  have "f64 t - t = (np_round (t / q) - t / q) * q"
    using assms q by (simp add: f64_def Let_def q_def [symmetric] algebra_simps)
  then have "\<bar>f64 t - t\<bar> = \<bar>np_round (t / q) - t / q\<bar> * q"
    using q by (simp add: abs_mult)
  also have "\<dots> \<le> (1 / 2) * q"
    using np_round_near [of "t / q"] q by (intro mult_right_mono) simp_all
  finally show ?thesis by (simp add: q_def)
qed

lemma f64_error_normal:
  assumes "pow2 (- 1022) \<le> \<bar>t\<bar>"
  shows "\<bar>f64 t - t\<bar> \<le> \<bar>t\<bar> * pow2 (- 53)"
proof -
  have nz: "t \<noteq> 0" using assms by auto
  define e where "e = \<lfloor>log 2 \<bar>t\<bar>\<rfloor>"
  have e: "- 1022 \<le> e" using assms nz by (simp add: pow2_le_abs_iff e_def)
  have "pow2 e \<le> \<bar>t\<bar>" using nz by (simp add: pow2_le_abs_iff e_def)
  then have upper: "pow2 e * pow2 (- 53) \<le> \<bar>t\<bar> * pow2 (- 53)"
    by (intro mult_right_mono) simp_all
  have "max e (- 1022) - 52 = e + (- 53) + 1" using e by simp
  then have "pow2 (max e (- 1022) - 52) = pow2 e * pow2 (- 53) * pow2 1"
    by (simp only: pow2_add)
  then have half: "pow2 (max e (- 1022) - 52) / 2 = pow2 e * pow2 (- 53)"
    by (simp add: pow2_def)
  have "\<bar>f64 t - t\<bar> \<le> pow2 (max e (- 1022) - 52) / 2"
    using f64_error [OF nz] by (simp only: e_def)
  with half upper show ?thesis by linarith
qed

lemma f64_error_any: "\<bar>f64 t - t\<bar> \<le> max (\<bar>t\<bar> * pow2 (- 53)) (pow2 (- 1075))"
proof (cases "pow2 (- 1022) \<le> \<bar>t\<bar>")
  case True
  then show ?thesis using f64_error_normal [of t] by simp
next
  case False
  show ?thesis
  proof (cases "t = 0")
    case True
    then show ?thesis by (simp add: less_imp_le)
  next
    case nz: False
    with False have "\<lfloor>log 2 \<bar>t\<bar>\<rfloor> < - 1022" by (simp add: pow2_le_abs_iff)
    then have "max \<lfloor>log 2 \<bar>t\<bar>\<rfloor> (- 1022) - 52 = - 1075 + 1" by simp
    then have "pow2 (max \<lfloor>log 2 \<bar>t\<bar>\<rfloor> (- 1022) - 52) = pow2 (- 1075) * pow2 1"
      by (simp only: pow2_add)
    then have "pow2 (max \<lfloor>log 2 \<bar>t\<bar>\<rfloor> (- 1022) - 52) / 2 = pow2 (- 1075)"
      by (simp add: pow2_def)
    then show ?thesis using f64_error [OF nz] by simp
  qed
qed

text \<open>Evaluating a rounding whose exponent is known.\<close>

lemma f64_at:
  assumes "pow2 e \<le> \<bar>t\<bar>" and "\<bar>t\<bar> < pow2 (e + 1)" and "- 1022 \<le> e"
  shows "f64 t = np_round (t / pow2 (e - 52)) * pow2 (e - 52)"
proof -
  have nz: "t \<noteq> 0" using assms(1) by auto
  have "e \<le> \<lfloor>log 2 \<bar>t\<bar>\<rfloor>" using assms(1) nz by (simp add: pow2_le_abs_iff)
  moreover have "\<not> e + 1 \<le> \<lfloor>log 2 \<bar>t\<bar>\<rfloor>"
    using assms(2) nz pow2_le_abs_iff [of t "e + 1"] by simp
  ultimately have "\<lfloor>log 2 \<bar>t\<bar>\<rfloor> = e" by simp
  then show ?thesis using nz assms(3) by (simp add: f64_def Let_def)
qed


lemma round_trip_error:
  assumes "p \<noteq> 0" and "pow2 (- 1022) \<le> \<bar>c * p\<bar>"
  shows "\<bar>f64 (f64 (c * p) / p) - c\<bar> \<le> max 1 \<bar>c\<bar> * (pow2 (- 52) + pow2 (- 106))"
proof -
  define u where "u = pow2 (- 53)"
  define y where "y = f64 (c * p)"
  define m where "m = max 1 \<bar>c\<bar>"
  have u: "0 < u" by (simp add: u_def)
  have uu: "pow2 (- 106) = u * u"
    using pow2_add [of "- 53" "- 53"] by (simp add: u_def)
  have u2: "pow2 (- 52) = 2 * u"
    using pow2_add [of "- 53" 1] by (simp add: u_def pow2_def)
  have tiny: "pow2 (- 1075) \<le> u"
    unfolding u_def by (rule pow2_mono) simp
  have m: "1 \<le> m" "\<bar>c\<bar> \<le> m" by (simp_all add: m_def)
  have first: "\<bar>y - c * p\<bar> \<le> \<bar>c * p\<bar> * u"
    unfolding y_def u_def using assms(2) by (rule f64_error_normal)
  have "y / p - c = (y - c * p) / p" using assms(1) by (simp add: field_simps)
  then have "\<bar>y / p - c\<bar> = \<bar>y - c * p\<bar> / \<bar>p\<bar>" by simp
  also have "\<dots> \<le> (\<bar>c * p\<bar> * u) / \<bar>p\<bar>"
    using first by (intro divide_right_mono) simp_all
  also have "\<dots> = \<bar>c\<bar> * u" using assms(1) by (simp add: abs_mult)
  finally have quotient: "\<bar>y / p - c\<bar> \<le> \<bar>c\<bar> * u" .
  then have "\<bar>y / p\<bar> \<le> \<bar>c\<bar> + \<bar>c\<bar> * u" by linarith
  then have "\<bar>y / p\<bar> * u \<le> (\<bar>c\<bar> + \<bar>c\<bar> * u) * u"
    using u by (intro mult_right_mono) simp_all
  then have scaled: "\<bar>y / p\<bar> * u \<le> \<bar>c\<bar> * u + \<bar>c\<bar> * u * u" by (simp add: algebra_simps)
  have second: "\<bar>f64 (y / p) - y / p\<bar> \<le> max (\<bar>y / p\<bar> * u) (pow2 (- 1075))"
    unfolding u_def by (rule f64_error_any)
  have a: "\<bar>c\<bar> * u \<le> m * u" using m u by (intro mult_right_mono) simp_all
  then have b: "\<bar>c\<bar> * u * u \<le> m * u * u" using u by (intro mult_right_mono) simp_all
  have c: "u \<le> m * u" using m u by simp
  have d: "0 \<le> m * u * u" using m u by simp
  have "\<bar>f64 (y / p) - c\<bar> \<le> 2 * (m * u) + m * u * u"
    using quotient scaled second a b c d tiny by linarith
  then show ?thesis by (simp add: y_def m_def uu u2 algebra_simps)
qed

lemma round_trip_element:
  assumes "p \<noteq> 0" and "c = 0 \<or> pow2 (- 1022) \<le> \<bar>c * p\<bar>"
  shows "np_round (f64 (f64 (c * p) / p)) \<in> \<int>"
    and "\<bar>np_round (f64 (f64 (c * p) / p)) - c\<bar> \<le> 1 / 2 + max 1 \<bar>c\<bar> / 2 ^ 51"
    and "c \<in> \<int> \<Longrightarrow> \<bar>c\<bar> < 2 ^ 51 \<Longrightarrow> np_round (f64 (f64 (c * p) / p)) = c"
proof -
  define z where "z = f64 (f64 (c * p) / p)"
  define m where "m = max 1 \<bar>c\<bar>"
  define w :: real where "w = pow2 (- 52) + pow2 (- 106)"
  have w: "w = 1 / 2 ^ 52 + 1 / 2 ^ 106" by (simp add: w_def pow2_def)
  have m: "1 \<le> m" "\<bar>c\<bar> \<le> m" by (simp_all add: m_def)
  have err: "\<bar>z - c\<bar> \<le> m * w"
  proof (cases "c = 0")
    case True
    then show ?thesis using m by (simp add: z_def w)
  next
    case False
    with assms(2) have "pow2 (- 1022) \<le> \<bar>c * p\<bar>" by simp
    with assms(1) show ?thesis unfolding z_def m_def w_def by (rule round_trip_error)
  qed
  show "np_round (f64 (f64 (c * p) / p)) \<in> \<int>" by (rule np_round_whole_number)
  have "w \<le> 1 / 2 ^ 51" by (simp add: w)
  then have "m * w \<le> m * (1 / 2 ^ 51)" using m by (intro mult_left_mono) simp_all
  then have "\<bar>z - c\<bar> \<le> m / 2 ^ 51" using err by simp
  then show "\<bar>np_round (f64 (f64 (c * p) / p)) - c\<bar> \<le> 1 / 2 + max 1 \<bar>c\<bar> / 2 ^ 51"
    using np_round_near [of z] unfolding z_def [symmetric] m_def [symmetric] by linarith
  show "np_round (f64 (f64 (c * p) / p)) = c" if whole: "c \<in> \<int>" and small: "\<bar>c\<bar> < 2 ^ 51"
  proof -
    from whole obtain k :: int where k: "c = of_int k" by (auto elim: Ints_cases)
    have "\<bar>c\<bar> = of_int \<bar>k\<bar>" by (simp add: k)
    with small have "real_of_int \<bar>k\<bar> < of_int (2 ^ 51)" by simp
    then have "\<bar>k\<bar> < 2 ^ 51" by (simp only: of_int_less_iff)
    then have "\<bar>k\<bar> \<le> 2 ^ 51 - 1" by linarith
    then have "real_of_int \<bar>k\<bar> \<le> of_int (2 ^ 51 - 1)" by (simp only: of_int_le_iff)
    then have "\<bar>c\<bar> \<le> 2 ^ 51 - 1" by (simp add: k)
    then have "m \<le> 2 ^ 51 - 1" using m by (simp add: m_def)
    then have "m * w \<le> (2 ^ 51 - 1) * w" by (intro mult_right_mono) (simp_all add: w)
    also have "\<dots> < 1 / 2" by (simp add: w)
    finally have "\<bar>z - c\<bar> < 1 / 2" using err by linarith
    with whole show ?thesis unfolding z_def by (rule np_round_unique)
  qed
qed

text \<open>
  The float64 values of the decimal numbers 0.059, 0.0592 and 69.49999999999999, the
  whole number 2377409063472393, and the products and quotients that the round trip
  computes from them.
\<close>

lemma f64_px_res: "f64 (59 / 1000) = 1062849512059437 / 2 ^ 54"
  by (subst f64_at [of "- 5"]) (simp_all add: pow2_def np_round_def Let_def)


lemma f64_px_res_2: "f64 (592 / 10000) = 2132904783522667 / 2 ^ 55"
  by (subst f64_at [of "- 5"]) (simp_all add: pow2_def np_round_def Let_def)

lemma f64_near_half: "f64 (6949999999999999 / 10 ^ 14) = 4890627720347647 / 2 ^ 46"
  by (subst f64_at [of 6]) (simp_all add: pow2_def np_round_def Let_def)

lemma f64_whole: "f64 2377409063472393 = 2377409063472393"
  by (subst f64_at [of 51]) (simp_all add: pow2_def np_round_def Let_def)

lemma f64_near_half_there:
  "f64 (4890627720347647 / 2 ^ 46 * (1062849512059437 / 2 ^ 54)) = 4616752568008179 / 2 ^ 50"
  by (subst f64_at [of 2]) (simp_all add: pow2_def np_round_def Let_def)

lemma f64_near_half_homeward:
  "f64 (4616752568008179 / 2 ^ 50 / (1062849512059437 / 2 ^ 54)) = 139 / 2"
  by (subst f64_at [of 6]) (simp_all add: pow2_def np_round_def Let_def)

lemma f64_whole_there:
  "f64 (2377409063472393 * (2132904783522667 / 2 ^ 55)) = 4503763729842101 / 2 ^ 5"
  by (subst f64_at [of 47]) (simp_all add: pow2_def np_round_def Let_def)

lemma f64_whole_homeward:
  "f64 (4503763729842101 / 2 ^ 5 / (2132904783522667 / 2 ^ 55)) = 4754818126944785 / 2"
  by (subst f64_at [of 51]) (simp_all add: pow2_def np_round_def Let_def)

lemma np_round_near_half: "np_round (139 / 2) = 70"
  by (simp add: np_round_def Let_def)

lemma np_round_whole_tie: "np_round (4754818126944785 / 2) = 2377409063472392"
  by (simp add: np_round_def Let_def)

subsection \<open>The round trip between pixels and arcseconds\<close>

text \<open>
  C8. In float64 arithmetic the round trip with \<^verbatim>\<open>centre=False\<close> does not stay within
  half a pixel, and does not recover every whole number of pixels. With the resolution
  0.059, the coordinate 69.49999999999999 pixels converts to arcseconds and back to
  70 pixels, more than half a pixel away: the quotient rounds to 69.5 and the tie goes
  to the even neighbour. With the resolution 0.0592, the whole number 2377409063472393
  of pixels comes back as 2377409063472392.
\<close>

theorem unit_conversion_round_trip_counterexample:
  "unit_conversion_in f64 (example_crisp\<lparr>px_res := Some (f64 (59 / 1000))\<rparr>)
       \<lparr>qval = Scalar (f64 (6949999999999999 / 10 ^ 14)), qunit = Pix\<rparr> ''arcsec'' False
     = Inr (Some \<lparr>qval = Scalar (4616752568008179 / 2 ^ 50), qunit = Arcsec\<rparr>)
   \<and> unit_conversion_in f64 (example_crisp\<lparr>px_res := Some (f64 (59 / 1000))\<rparr>)
       \<lparr>qval = Scalar (4616752568008179 / 2 ^ 50), qunit = Arcsec\<rparr> ''pix'' False
     = Inr (Some \<lparr>qval = Scalar 70, qunit = Pix\<rparr>)
   \<and> 1 / 2 < \<bar>70 - f64 (6949999999999999 / 10 ^ 14)\<bar>
   \<and> unit_conversion_in f64 (example_crisp\<lparr>px_res := Some (f64 (592 / 10000))\<rparr>)
       \<lparr>qval = Scalar (f64 2377409063472393), qunit = Pix\<rparr> ''arcsec'' False
     = Inr (Some \<lparr>qval = Scalar (4503763729842101 / 2 ^ 5), qunit = Arcsec\<rparr>)
   \<and> unit_conversion_in f64 (example_crisp\<lparr>px_res := Some (f64 (592 / 10000))\<rparr>)
       \<lparr>qval = Scalar (4503763729842101 / 2 ^ 5), qunit = Arcsec\<rparr> ''pix'' False
     = Inr (Some \<lparr>qval = Scalar 2377409063472392, qunit = Pix\<rparr>)
   \<and> f64 2377409063472393 = 2377409063472393"
proof -
  let ?p = "1062849512059437 / 2 ^ 54 :: real"
  let ?x = "4890627720347647 / 2 ^ 46 :: real"
  let ?y = "4616752568008179 / 2 ^ 50 :: real"
  let ?self = "example_crisp\<lparr>px_res := Some ?p\<rparr>"
  let ?q = "2132904783522667 / 2 ^ 55 :: real"
  let ?w = "2377409063472393 :: real"
  let ?v = "4503763729842101 / 2 ^ 5 :: real"
  let ?other = "example_crisp\<lparr>px_res := Some ?q\<rparr>"
  have "unit_conversion_in f64 ?self \<lparr>qval = Scalar ?x, qunit = Pix\<rparr> ''arcsec'' False
          = Inr (Some \<lparr>qval = vmap (\<lambda>c. f64 (c * ?p)) (qval \<lparr>qval = Scalar ?x, qunit = Pix\<rparr>),
                       qunit = Arcsec\<rparr>)"
    by (rule unit_conversion_in_pix_arcsec_plain) simp_all
  then have one: "unit_conversion_in f64 ?self \<lparr>qval = Scalar ?x, qunit = Pix\<rparr> ''arcsec'' False
          = Inr (Some \<lparr>qval = Scalar ?y, qunit = Arcsec\<rparr>)"
    by (simp only: quantity.simps vmap.simps f64_near_half_there)
  have "unit_conversion_in f64 ?self \<lparr>qval = Scalar ?y, qunit = Arcsec\<rparr> ''pix'' False
          = Inr (Some \<lparr>qval = vmap np_round (vmap (\<lambda>c. f64 (c / ?p))
                                  (qval \<lparr>qval = Scalar ?y, qunit = Arcsec\<rparr>)), qunit = Pix\<rparr>)"
    by (rule unit_conversion_in_arcsec_pix_plain) simp_all
  then have two: "unit_conversion_in f64 ?self \<lparr>qval = Scalar ?y, qunit = Arcsec\<rparr> ''pix'' False
          = Inr (Some \<lparr>qval = Scalar 70, qunit = Pix\<rparr>)"
    by (simp only: quantity.simps vmap.simps f64_near_half_homeward np_round_near_half)
  have three: "1 / 2 < \<bar>70 - ?x\<bar>" by simp
  have "unit_conversion_in f64 ?other \<lparr>qval = Scalar ?w, qunit = Pix\<rparr> ''arcsec'' False
          = Inr (Some \<lparr>qval = vmap (\<lambda>c. f64 (c * ?q)) (qval \<lparr>qval = Scalar ?w, qunit = Pix\<rparr>),
                       qunit = Arcsec\<rparr>)"
    by (rule unit_conversion_in_pix_arcsec_plain) simp_all
  then have four: "unit_conversion_in f64 ?other \<lparr>qval = Scalar ?w, qunit = Pix\<rparr> ''arcsec'' False
          = Inr (Some \<lparr>qval = Scalar ?v, qunit = Arcsec\<rparr>)"
    by (simp only: quantity.simps vmap.simps f64_whole_there)
  have "unit_conversion_in f64 ?other \<lparr>qval = Scalar ?v, qunit = Arcsec\<rparr> ''pix'' False
          = Inr (Some \<lparr>qval = vmap np_round (vmap (\<lambda>c. f64 (c / ?q))
                                  (qval \<lparr>qval = Scalar ?v, qunit = Arcsec\<rparr>)), qunit = Pix\<rparr>)"
    by (rule unit_conversion_in_arcsec_pix_plain) simp_all
  then have five: "unit_conversion_in f64 ?other \<lparr>qval = Scalar ?v, qunit = Arcsec\<rparr> ''pix'' False
          = Inr (Some \<lparr>qval = Scalar 2377409063472392, qunit = Pix\<rparr>)"
    by (simp only: quantity.simps vmap.simps f64_whole_homeward np_round_whole_tie)
  show ?thesis
    unfolding f64_px_res f64_px_res_2 f64_near_half f64_whole
    using one two three four five by blast
qed

text \<open>
  C8, as the code has it. Round trip with \<^verbatim>\<open>centre=False\<close> in float64 arithmetic, for
  a non-zero resolution \<open>p\<close> and a coordinate \<open>x\<close> in pixels whose numbers are zero or
  have a product with \<open>p\<close> in the normal range of float64 (no underflow, no overflow):
  \<open>x\<close> converts to arcseconds, and that result converts back to pixels; every number
  of the result is a whole number, within \<open>1 / 2 + max 1 |c| / 2 ^ 51\<close> of the number
  \<open>c\<close> of \<open>x\<close> it comes from (half a pixel, and the error of the two roundings), and
  equal to \<open>c\<close> when \<open>c\<close> is a whole number of pixels below \<open>2 ^ 51\<close> in magnitude.
\<close>

theorem unit_conversion_round_trip:
  assumes "px_res self = Some p" and "p \<noteq> 0" and "qunit x = Pix"
      and "\<forall>c \<in> set (elems (qval x)).
             c = 0 \<or> (pow2 (- 1022) \<le> \<bar>c * p\<bar> \<and> \<bar>c * p\<bar> < pow2 1023 \<and> \<bar>c\<bar> < pow2 1022)"
  shows "\<exists>a b. unit_conversion_in f64 self x ''arcsec'' False = Inr (Some a)
             \<and> unit_conversion_in f64 self a ''pix'' False = Inr (Some b)
             \<and> qunit b = Pix
             \<and> length (elems (qval b)) = length (elems (qval x))
             \<and> (\<forall>i < length (elems (qval x)).
                   elems (qval b) ! i \<in> \<int>
                   \<and> \<bar>elems (qval b) ! i - elems (qval x) ! i\<bar>
                        \<le> 1 / 2 + max 1 \<bar>elems (qval x) ! i\<bar> / 2 ^ 51
                   \<and> (elems (qval x) ! i \<in> \<int> \<and> \<bar>elems (qval x) ! i\<bar> < 2 ^ 51
                        \<longrightarrow> elems (qval b) ! i = elems (qval x) ! i))"
proof -
  let ?a = "\<lparr>qval = vmap (\<lambda>c. f64 (c * p)) (qval x), qunit = Arcsec\<rparr>"
  let ?b = "\<lparr>qval = vmap np_round (vmap (\<lambda>c. f64 (c / p)) (qval ?a)), qunit = Pix\<rparr>"
  have there: "unit_conversion_in f64 self x ''arcsec'' False = Inr (Some ?a)"
    using assms(3) assms(1) by (rule unit_conversion_in_pix_arcsec_plain)
  have homeward: "unit_conversion_in f64 self ?a ''pix'' False = Inr (Some ?b)"
    using assms(1) by (intro unit_conversion_in_arcsec_pix_plain) simp_all
  have numbers: "elems (qval ?b) = map (\<lambda>c. np_round (f64 (f64 (c * p) / p))) (elems (qval x))"
    by (simp add: elems_vmap comp_def)
  have "elems (qval ?b) ! i \<in> \<int>
        \<and> \<bar>elems (qval ?b) ! i - elems (qval x) ! i\<bar>
             \<le> 1 / 2 + max 1 \<bar>elems (qval x) ! i\<bar> / 2 ^ 51
        \<and> (elems (qval x) ! i \<in> \<int> \<and> \<bar>elems (qval x) ! i\<bar> < 2 ^ 51
             \<longrightarrow> elems (qval ?b) ! i = elems (qval x) ! i)"
    if i: "i < length (elems (qval x))" for i
  proof -
    define c where "c = elems (qval x) ! i"
    have "c \<in> set (elems (qval x))" using i by (simp add: c_def)
    with assms(4) have inside: "c = 0 \<or> pow2 (- 1022) \<le> \<bar>c * p\<bar>" by blast
    have picked: "elems (qval ?b) ! i = np_round (f64 (f64 (c * p) / p))"
      using i unfolding numbers c_def by simp
    show ?thesis
      unfolding picked c_def [symmetric]
      using round_trip_element [OF assms(2) inside] by blast
  qed
  with there homeward show ?thesis
    by (intro exI [of _ ?a] exI [of _ ?b]) (simp add: elems_vmap)
qed

theorem unit_conversion_round_trip_witness:
  "px_res (example_crisp\<lparr>px_res := Some (f64 (59 / 1000))\<rparr>) = Some (f64 (59 / 1000))
   \<and> f64 (59 / 1000) \<noteq> 0
   \<and> qunit \<lparr>qval = Vec [10, 1 / 4], qunit = Pix\<rparr> = Pix
   \<and> elems (qval \<lparr>qval = Vec [10, 1 / 4], qunit = Pix\<rparr>) = [10, 1 / 4]
   \<and> pow2 (- 1022) \<le> \<bar>10 * f64 (59 / 1000)\<bar> \<and> \<bar>10 * f64 (59 / 1000)\<bar> < pow2 1023
   \<and> \<bar>10 :: real\<bar> < pow2 1022
   \<and> pow2 (- 1022) \<le> \<bar>1 / 4 * f64 (59 / 1000)\<bar> \<and> \<bar>1 / 4 * f64 (59 / 1000)\<bar> < pow2 1023
   \<and> \<bar>1 / 4 :: real\<bar> < pow2 1022
   \<and> (\<exists>a b. unit_conversion_in f64 (example_crisp\<lparr>px_res := Some (f64 (59 / 1000))\<rparr>)
                \<lparr>qval = Vec [10, 1 / 4], qunit = Pix\<rparr> ''arcsec'' False = Inr (Some a)
            \<and> unit_conversion_in f64 (example_crisp\<lparr>px_res := Some (f64 (59 / 1000))\<rparr>) a
                ''pix'' False = Inr (Some b)
            \<and> qunit b = Pix \<and> length (elems (qval b)) = 2 \<and> elems (qval b) ! 0 = 10
            \<and> elems (qval b) ! 1 \<in> \<int> \<and> \<bar>elems (qval b) ! 1 - 1 / 4\<bar> \<le> 1 / 2 + 1 / 2 ^ 51)"
proof -
  let ?self = "example_crisp\<lparr>px_res := Some (f64 (59 / 1000))\<rparr>"
  let ?x = "\<lparr>qval = Vec [10, 1 / 4], qunit = Pix\<rparr>"
  have res: "px_res ?self = Some (f64 (59 / 1000))" by simp
  have nz: "f64 (59 / 1000) \<noteq> 0" by (simp add: f64_px_res)
  have unit: "qunit ?x = Pix" by simp
  have inside: "\<forall>c \<in> set (elems (qval ?x)).
         c = 0 \<or> (pow2 (- 1022) \<le> \<bar>c * f64 (59 / 1000)\<bar> \<and> \<bar>c * f64 (59 / 1000)\<bar> < pow2 1023
                  \<and> \<bar>c\<bar> < pow2 1022)"
    by (simp add: f64_px_res pow2_def)
  from unit_conversion_round_trip [OF res nz unit inside]
  obtain a b where there: "unit_conversion_in f64 ?self ?x ''arcsec'' False = Inr (Some a)"
    and homeward: "unit_conversion_in f64 ?self a ''pix'' False = Inr (Some b)"
    and u: "qunit b = Pix"
    and len: "length (elems (qval b)) = length (elems (qval ?x))"
    and near: "\<forall>i < length (elems (qval ?x)).
                 elems (qval b) ! i \<in> \<int>
                 \<and> \<bar>elems (qval b) ! i - elems (qval ?x) ! i\<bar>
                      \<le> 1 / 2 + max 1 \<bar>elems (qval ?x) ! i\<bar> / 2 ^ 51
                 \<and> (elems (qval ?x) ! i \<in> \<int> \<and> \<bar>elems (qval ?x) ! i\<bar> < 2 ^ 51
                      \<longrightarrow> elems (qval b) ! i = elems (qval ?x) ! i)"
    by blast
  from len have two: "length (elems (qval b)) = 2" by simp
  from near [THEN spec, of 0] have first: "elems (qval b) ! 0 = 10" by simp
  from near [THEN spec, of 1]
  have second: "elems (qval b) ! 1 \<in> \<int> \<and> \<bar>elems (qval b) ! 1 - 1 / 4\<bar> \<le> 1 / 2 + 1 / 2 ^ 51"
    by simp
  have numbers: "elems (qval ?x) = [10, 1 / 4]" by simp
  have ten: "pow2 (- 1022) \<le> \<bar>10 * f64 (59 / 1000)\<bar> \<and> \<bar>10 * f64 (59 / 1000)\<bar> < pow2 1023
             \<and> \<bar>10 :: real\<bar> < pow2 1022"
    by (simp add: f64_px_res pow2_def)
  have quarter: "pow2 (- 1022) \<le> \<bar>1 / 4 * f64 (59 / 1000)\<bar> \<and> \<bar>1 / 4 * f64 (59 / 1000)\<bar> < pow2 1023
                 \<and> \<bar>1 / 4 :: real\<bar> < pow2 1022"
    by (simp add: f64_px_res pow2_def)
  from res nz unit numbers ten quarter there homeward u two first second show ?thesis by blast
qed

subsection \<open>Exceptions of the calls inside \<^verbatim>\<open>intensity_vector\<close>\<close>

lemma collect_error:
  "collect rs = Inl e \<Longrightarrow> \<exists>r \<in> set rs. r = Inl e"
  by (induction rs) (auto split: sum.splits)

lemma collect_map_error:
  "collect (map f xs) = Inl e \<Longrightarrow> \<exists>x \<in> set xs. f x = Inl e"
  by (drule collect_error) auto

lemma getitem_error: "getitem a is = Inl e \<Longrightarrow> e = IndexError"
proof (induction a "is" rule: getitem.induct)
  case (4 xs rest)
  from "4.prems" have "collect (map (\<lambda>x. getitem x rest) xs) = Inl e"
    by (simp split: sum.splits)
  then obtain x where "x \<in> set xs" and "getitem x rest = Inl e"
    by (auto dest!: collect_map_error)
  then show ?case using "4.IH" by blast
qed (auto simp: py_nth_def split: if_splits sum.splits)

lemma as_index_error: "as_index r = Inl e \<Longrightarrow> e = IndexError"
  by (simp add: as_index_def)

lemma unpack_error: "unpack c = Inl e \<Longrightarrow> e = TypeError"
  by (auto simp: unpack_def split: option.splits val.splits)

lemma subscript_error:
  "subscript d pre c = Inl e \<Longrightarrow> e = TypeError \<or> e = IndexError"
  by (auto simp: subscript_def then_do_def split: sum.splits option.splits
           dest: unpack_error getitem_error as_index_error dest!: collect_map_error)

lemma subscript_not_WiseGuyError [simp]: "subscript d pre c \<noteq> Inl WiseGuyError"
  using subscript_error [of d pre c WiseGuyError] by auto

lemma returned_not_WiseGuyError [simp]: "returned (subscript d pre c) \<noteq> Inl WiseGuyError"
  by (cases "subscript d pre c") (auto simp: returned_def)

lemma broadcast_error: "broadcast f a b = Inl e \<Longrightarrow> e = ValueError"
  by (cases a; cases b) (auto split: if_splits)

lemma unit_conversion_pix_centred:
  "unit_conversion self coord ''pix'' True =
     (case qunit coord of
        Pix \<Rightarrow> Inr (Some coord)
      | Arcsec \<Rightarrow>
          then_do (attr ''pointing'' (pointing self)) (\<lambda>pt.
          then_do (broadcast (-) (qval coord) (pair_val pt)) (\<lambda>d.
          then_do (attr ''px_res'' (px_res self)) (\<lambda>p.
            (let px_diff = vmap np_round (vmap (\<lambda>c. c / p) d)
             in then_do (attr ''mid'' (mid self)) (\<lambda>m.
                then_do (broadcast (+) (pair_val m) px_diff) (\<lambda>r.
                  Inr (Some \<lparr>qval = r, qunit = Pix\<rparr>)))))))
      | Megameter \<Rightarrow> unit_conversion self coord ''pix'' False)"
  unfolding unit_conversion_def by (subst unit_conversion_in.simps) simp

lemma unit_conversion_pix_not_WiseGuyError:
  "unit_conversion self coord ''pix'' centre \<noteq> Inl WiseGuyError"
proof -
  have plain: "unit_conversion self c ''pix'' False \<noteq> Inl WiseGuyError" for c
    by (auto simp: unit_conversion_pix_plain attr_def then_do_def
             split: coord_unit.splits option.splits)
  show ?thesis
  proof (cases centre)
    case False
    then show ?thesis using plain by simp
  next
    case True
    then show ?thesis
      using plain [of coord]
      by (auto simp: unit_conversion_pix_centred attr_def then_do_def Let_def
               split: coord_unit.splits option.splits sum.splits
               dest: broadcast_error)
  qed
qed

lemma lower_ha [simp]: "lower ''ha'' = ''ha''"
  by (simp add: lower_def lower_char_def)

lemma lower_ca [simp]: "lower ''ca'' = ''ca''"
  by (simp add: lower_def lower_char_def)

subsection \<open>Intensity vectors\<close>

lemma returned_Inr_iff: "returned r = Inr (Some v) \<longleftrightarrow> r = Inr v"
  by (cases r) (auto simp: returned_def)

lemma shape_len_Some [simp]: "shape_len (Some a) = Inr (ndim a)"
  by (simp add: shape_len_def)

text \<open>
  Subscripting with a coordinate of at least one element raises, before the array is
  looked at; with the empty coordinate the leading entries alone index the array.
\<close>

lemma subscript_nonempty:
  assumes "qval q = Vec (x # xs)"
  shows "subscript d pre (Some q) = (case d of None \<Rightarrow> Inl TypeError | Some a \<Rightarrow> Inl IndexError)"
  using assms by (simp add: subscript_def unpack_def as_index_def split: option.splits)

lemma subscript_empty:
  assumes "qval q = Vec []"
  shows "subscript (Some a) pre (Some q) = getitem a pre"
  using assms by (simp add: subscript_def unpack_def)

text \<open>
  When \<^verbatim>\<open>WiseGuyError\<close> is raised: for a line that is \<^verbatim>\<open>"ca"\<close> or \<^verbatim>\<open>"ha"\<close>, a calcium
  cube of three or four axes and a coordinate that converts to pixels, exactly when the
  line is \<^verbatim>\<open>"ha"\<close> and \<^verbatim>\<open>pol\<close> is set, or \<^verbatim>\<open>pol\<close> is set and the calcium cube has three
  axes.
\<close>

lemma intensity_vector_WiseGuyError_iff:
  assumes "line = ''ca'' \<or> line = ''ha''"
      and "ca self = Some c" and "data c = Some d" and "ndim d = 3 \<or> ndim d = 4"
      and "unit_conversion self coord ''pix'' centre = Inr px"
  shows "intensity_vector self coord line pol centre = Inl WiseGuyError
           \<longleftrightarrow> (line = ''ha'' \<and> pol) \<or> (pol \<and> ndim d = 3)"
proof (cases "line = ''ha''")
  case True
  then show ?thesis
    using assms(5) by (cases "ha self") (auto simp: intensity_vector_def)
next
  case False
  with assms(1) have "line = ''ca''" by simp
  then show ?thesis
    using assms(2-5) by (auto simp: intensity_vector_def)
qed

text \<open>
  In every other combination the method reaches the subscript of the data array, and
  for a coordinate of at least one element the subscript raises: no vector is returned.
\<close>

lemma intensity_vector_subscript_raises:
  assumes "line = ''ca'' \<or> line = ''ha''"
      and "\<not> (line = ''ha'' \<and> pol)"
      and "unit_conversion self coord ''pix'' centre = Inr (Some q)" and "qval q = Vec (x # xs)"
      and "line = ''ca'' \<longrightarrow> (\<exists>c d. ca self = Some c \<and> data c = Some d \<and> \<not> (pol \<and> ndim d \<noteq> 4))"
      and "line = ''ha'' \<longrightarrow> (\<exists>h d. ha self = Some h \<and> data h = Some d)"
  shows "intensity_vector self coord line pol centre = Inl IndexError"
proof (cases "line = ''ha''")
  case True
  with assms(6) obtain h d where "ha self = Some h" and "data h = Some d" by blast
  then show ?thesis
    using True assms(2,3) subscript_nonempty [OF assms(4)]
    by (simp add: intensity_vector_def returned_def)
next
  case False
  with assms(1) have ca: "line = ''ca''" by simp
  with assms(5) obtain c d where "ca self = Some c" and "data c = Some d"
    and "\<not> (pol \<and> ndim d \<noteq> 4)" by blast
  then show ?thesis
    using ca assms(3) subscript_nonempty [OF assms(4)]
    by (auto simp: intensity_vector_def returned_def)
qed

text \<open>
  C6. On an accessor holding a cube of three wavelengths over two by two pixels as both
  lines, for the pixel (1, 0), which lies in the frame and whose intensity vector is
  (3, 7, 11): with \<^verbatim>\<open>pol=True\<close> both lines raise \<^verbatim>\<open>WiseGuyError\<close>, as claimed; with
  \<^verbatim>\<open>pol=False\<close> neither line returns the vector: the subscript of the data array raises
  \<^verbatim>\<open>IndexError\<close>.
\<close>

theorem intensity_vector_returns_no_vector:
  "ca example_obs = Some example_cube \<and> ha example_obs = Some example_cube
   \<and> data example_cube = Some example_data \<and> ndim example_data = 3
   \<and> unit_conversion example_obs \<lparr>qval = Vec [1, 0], qunit = Pix\<rparr> ''pix'' False
       = Inr (Some \<lparr>qval = Vec [1, 0], qunit = Pix\<rparr>)
   \<and> getitem example_data [Whole, Ix 1, Ix 0] = Inr (Arr [Num 3, Num 7, Num 11])
   \<and> intensity_vector example_obs \<lparr>qval = Vec [1, 0], qunit = Pix\<rparr> ''ca'' False False
       = Inl IndexError
   \<and> intensity_vector example_obs \<lparr>qval = Vec [1, 0], qunit = Pix\<rparr> ''ha'' False False
       = Inl IndexError
   \<and> intensity_vector example_obs \<lparr>qval = Vec [1, 0], qunit = Pix\<rparr> ''ca'' True False
       = Inl WiseGuyError
   \<and> intensity_vector example_obs \<lparr>qval = Vec [1, 0], qunit = Pix\<rparr> ''ha'' True False
       = Inl WiseGuyError"
  by (simp add: intensity_vector_def unit_conversion_pix_plain example_obs_def
        example_cube_def example_data_def subscript_def unpack_def as_index_def
        returned_def py_nth_def)

text \<open>
  C9. With the line spelled \<^verbatim>\<open>"Ha"\<close> and \<^verbatim>\<open>pol=True\<close> the guard is passed, but H-alpha
  data is not returned for every coordinate: on the accessor above the pixel (1, 0)
  raises \<^verbatim>\<open>IndexError\<close> at the subscript of line 274, and a scalar coordinate, which
  cannot be unpacked, raises \<^verbatim>\<open>TypeError\<close>.
\<close>

theorem intensity_vector_guard_bypassed_counterexample:
  "lower ''Ha'' = ''ha'' \<and> ''Ha'' \<noteq> ''ha''
   \<and> ha example_obs = Some example_cube \<and> data example_cube = Some example_data
   \<and> unit_conversion example_obs \<lparr>qval = Vec [1, 0], qunit = Pix\<rparr> ''pix'' False
       = Inr (Some \<lparr>qval = Vec [1, 0], qunit = Pix\<rparr>)
   \<and> intensity_vector example_obs \<lparr>qval = Vec [1, 0], qunit = Pix\<rparr> ''Ha'' True False
       = Inl IndexError
   \<and> intensity_vector example_obs \<lparr>qval = Scalar 1, qunit = Pix\<rparr> ''Ha'' True False
       = Inl TypeError"
proof -
  have spelled: "lower ''Ha'' = ''ha''" by code_simp
  then show ?thesis
    by (simp add: intensity_vector_def unit_conversion_pix_plain example_obs_def
          example_cube_def example_data_def subscript_def unpack_def as_index_def
          returned_def)
qed

text \<open>
  C9, as the code has it. The guard compares the line as given, the dispatch compares
  it in lower case: for every accessor, every coordinate and every spelling of \<^verbatim>\<open>"ha"\<close>
  other than the lower-case one, the call with \<^verbatim>\<open>pol=True\<close> does not raise
  \<^verbatim>\<open>WiseGuyError\<close>; it is the call with the line \<^verbatim>\<open>"ha"\<close> and \<^verbatim>\<open>pol=False\<close>: the
  conversion of the coordinate to pixels, then the subscript \<^verbatim>\<open>self.ha.data[:, *coord]\<close>
  of line 274.
\<close>

theorem intensity_vector_guard_bypassed:
  assumes "lower line = ''ha''" and "line \<noteq> ''ha''"
  shows "intensity_vector self coord line True centre \<noteq> Inl WiseGuyError
       \<and> intensity_vector self coord line True centre
           = intensity_vector self coord ''ha'' False centre
       \<and> intensity_vector self coord line True centre
           = then_do (unit_conversion self coord ''pix'' centre) (\<lambda>coord'.
               then_do (attr ''ha'' (ha self)) (\<lambda>h.
                 returned (subscript (data h) [Whole] coord')))"
proof -
  have body: "intensity_vector self coord line True centre =
          then_do (unit_conversion self coord ''pix'' centre) (\<lambda>coord'.
            then_do (attr ''ha'' (ha self)) (\<lambda>h. returned (subscript (data h) [Whole] coord')))"
    using assms by (simp add: intensity_vector_def)
  have same: "intensity_vector self coord line True centre
                = intensity_vector self coord ''ha'' False centre"
    using body by (simp add: intensity_vector_def)
  have "intensity_vector self coord line True centre \<noteq> Inl WiseGuyError"
    using unit_conversion_pix_not_WiseGuyError [of self coord centre]
    by (cases "unit_conversion self coord ''pix'' centre"; cases "ha self")
       (auto simp: body)
  with same body show ?thesis by simp
qed

theorem intensity_vector_guard_bypassed_witness:
  "lower ''HA'' = ''ha'' \<and> ''HA'' \<noteq> ''ha''
   \<and> intensity_vector example_obs \<lparr>qval = Vec [1, 0], qunit = Arcsec\<rparr> ''HA'' True True
       \<noteq> Inl WiseGuyError
   \<and> intensity_vector example_obs \<lparr>qval = Vec [1, 0], qunit = Arcsec\<rparr> ''HA'' True True
       = intensity_vector example_obs \<lparr>qval = Vec [1, 0], qunit = Arcsec\<rparr> ''ha'' False True
   \<and> intensity_vector example_obs \<lparr>qval = Vec [1, 0], qunit = Arcsec\<rparr> ''HA'' True True
       = then_do (unit_conversion example_obs \<lparr>qval = Vec [1, 0], qunit = Arcsec\<rparr> ''pix'' True)
           (\<lambda>coord'. then_do (attr ''ha'' (ha example_obs)) (\<lambda>h.
              returned (subscript (data h) [Whole] coord')))"
proof -
  have spelled: "lower ''HA'' = ''ha''" by code_simp
  have other: "''HA'' \<noteq> ''ha''" by simp
  from intensity_vector_guard_bypassed [OF spelled other] spelled other
  show ?thesis by blast
qed

subsection \<open>Ingestion\<close>

lemma py_nth_first [simp]: "py_nth (x # xs) 0 = Inr x"
  by (simp add: py_nth_def)

lemma py_nth_second_none [simp]: "py_nth [x] 1 = Inl IndexError"
  by (simp add: py_nth_def)

lemma py_nth_second [simp]: "py_nth (x # y # ys) 1 = Inr y"
  by (simp add: py_nth_def)

lemma py_nth_from_end [simp]:
  "py_nth [a, b, c] (- 1) = Inr c" "py_nth [a, b, c] (- 2) = Inr b" "py_nth [a, b, c] (- 3) = Inr a"
  by (simp_all add: py_nth_def)

lemma init_str_fits_ca:
  "is_in ''.fits'' p \<Longrightarrow> is_in ''ca'' p \<Longrightarrow>
   init_str fs p =
     then_do (fits_open fs p) (\<lambda>hdus.
     then_do (py_nth hdus 0) (\<lambda>hdu.
     then_do (fits_wvls fs p hdu) (\<lambda>w.
     then_do (fits_px_res hdu) (\<lambda>r.
     then_do (fits_pointing hdu) (\<lambda>pt.
     then_do (fits_mid hdu) (\<lambda>m.
       Inr (empty_crisp\<lparr>ca := Some hdu, ca_wvls := Some w,
                         px_res := Some r, pointing := Some pt, mid := Some m\<rparr>)))))))"
  by (simp add: init_str_def file_kind_def)

lemma init_str_fits_ha:
  "is_in ''.fits'' p \<Longrightarrow> \<not> is_in ''ca'' p \<Longrightarrow>
   init_str fs p =
     then_do (fits_open fs p) (\<lambda>hdus.
     then_do (py_nth hdus 0) (\<lambda>hdu.
     then_do (fits_wvls fs p hdu) (\<lambda>w.
     then_do (fits_px_res hdu) (\<lambda>r.
     then_do (fits_pointing hdu) (\<lambda>pt.
     then_do (fits_mid hdu) (\<lambda>m.
       Inr (empty_crisp\<lparr>ha := Some hdu, ha_wvls := Some w,
                         px_res := Some r, pointing := Some pt, mid := Some m\<rparr>)))))))"
  by (simp add: init_str_def file_kind_def)

lemma init_str_other_ha:
  "\<not> is_in ''.fits'' p \<Longrightarrow> \<not> is_in ''ca'' p \<Longrightarrow>
   init_str fs p =
     then_do (h5_cube fs p) (\<lambda>c.
     then_do (h5_wvls c) (\<lambda>w.
     then_do (h5_px_res c) (\<lambda>r.
     then_do (h5_pointing c) (\<lambda>pt.
     then_do (h5_mid_ha c) (\<lambda>m.
       Inr (empty_crisp\<lparr>ha := Some c, ha_wvls := Some w,
                         px_res := Some r, pointing := Some pt, mid := Some m\<rparr>))))))"
  by (simp add: init_str_def file_kind_def truthy_def)

lemma init_step_fits_ca:
  "is_in ''.fits'' p \<Longrightarrow> is_in ''ca'' p \<Longrightarrow>
   init_step fs self p =
     then_do (fits_open fs p) (\<lambda>hdus.
     then_do (py_nth hdus 0) (\<lambda>hdu.
     then_do (fits_wvls fs p hdu) (\<lambda>w.
     then_do (fits_px_res hdu) (\<lambda>r.
     then_do (fits_pointing hdu) (\<lambda>pt.
     then_do (fits_mid hdu) (\<lambda>m.
       Inr (self\<lparr>ca := Some hdu, ca_wvls := Some w,
                  px_res := Some r, pointing := Some pt, mid := Some m\<rparr>)))))))"
  by (simp add: init_step_def file_kind_def)

lemma init_step_fits_ha:
  "is_in ''.fits'' p \<Longrightarrow> \<not> is_in ''ca'' p \<Longrightarrow>
   init_step fs self p =
     then_do (fits_open fs p) (\<lambda>hdus.
     then_do (py_nth hdus 0) (\<lambda>hdu.
     then_do (fits_wvls fs p hdu) (\<lambda>w.
       Inr (self\<lparr>ha := Some hdu, ha_wvls := Some w\<rparr>))))"
  by (simp add: init_step_def file_kind_def)

lemma fits_wvls_missing:
  assumes "fs p = Some (FitsFile hdus)" and "header hdu ''spect_pos'' = None"
  shows "fits_wvls fs p hdu =
           then_do (py_nth hdus 1) (\<lambda>ext.
             (case data ext of None \<Rightarrow> Inl TypeError | Some d \<Rightarrow> Inr d))"
  using assms by (simp add: fits_wvls_def lookup_def fits_open_def)

lemma example_h5_cube:
  "h5_cube example_fs ''halpha.h5'' = Inr \<lparr>header = h5_header, data = Some example_data\<rparr>"
  "h5_cube example_fs ''obs.dat'' = Inr \<lparr>header = h5_header, data = Some example_data\<rparr>"
  by (simp_all add: h5_cube_def h5py_File_def example_fs_def dataset_def)

lemma example_h5_header:
  "h5_wvls \<lparr>header = h5_header, data = d\<rparr> = Inr (Arr [Num 6562, Num 6563, Num 6564])"
  "h5_px_res \<lparr>header = h5_header, data = d\<rparr> = Inr (592 / 10000)"
  "h5_pointing \<lparr>header = h5_header, data = d\<rparr> = Inr (- 5, 10)"
  "h5_mid_ha \<lparr>header = h5_header, data = d\<rparr> = Inr (500, 1200)"
  "h5_mid_ca \<lparr>header = h5_header, data = d\<rparr> = Inr (500, 600)"
  by (simp_all add: h5_wvls_def h5_px_res_def h5_pointing_def h5_mid_ha_def h5_mid_ca_def
                    lookup_def h5_header_def to_pair_def)

lemma example_halpha_h5:
  "init_str example_fs ''halpha.h5'' =
     Inr (empty_crisp\<lparr>ha := Some \<lparr>header = h5_header, data = Some example_data\<rparr>,
                       ha_wvls := Some (Arr [Num 6562, Num 6563, Num 6564]),
                       px_res := Some (592 / 10000), pointing := Some (- 5, 10),
                       mid := Some (500, 1200)\<rparr>)"
  by (simp add: init_str_other_ha example_h5_cube example_h5_header)

lemma example_obs_dat:
  "init_str example_fs ''obs.dat'' =
     Inr (empty_crisp\<lparr>ha := Some \<lparr>header = h5_header, data = Some example_data\<rparr>,
                       ha_wvls := Some (Arr [Num 6562, Num 6563, Num 6564]),
                       px_res := Some (592 / 10000), pointing := Some (- 5, 10),
                       mid := Some (500, 1200)\<rparr>)"
  by (simp add: init_str_other_ha example_h5_cube example_h5_header)

lemma example_fits_header:
  "fits_px_res \<lparr>header = fits_header(k \<mapsto> v), data = d\<rparr> = Inr (592 / 10000)" (is ?a)
  "fits_pointing \<lparr>header = fits_header(''spect_pos'' \<mapsto> v), data = d\<rparr> = Inr (- 5, 10)"
  "fits_mid \<lparr>header = fits_header(''spect_pos'' \<mapsto> v), data = d\<rparr> = Inr (500, 500)"
  if "k = ''spect_pos''"
  using that
  by (simp_all add: fits_px_res_def fits_pointing_def fits_mid_def lookup_def fits_header_def
                    to_pair_def)

lemma example_halpha_fits:
  "init_str example_fs ''halpha.fits'' =
     Inr (empty_crisp
            \<lparr>ha := Some \<lparr>header = fits_header(''spect_pos'' \<mapsto> HList [HReal 6562, HReal 6563, HReal 6564]),
                          data = Some example_data\<rparr>,
             ha_wvls := Some (Arr [Num 6562, Num 6563, Num 6564]),
             px_res := Some (592 / 10000), pointing := Some (- 5, 10), mid := Some (500, 500)\<rparr>)"
  by (simp add: init_str_fits_ha example_fits_header fits_open_def example_fs_def
                fits_wvls_def lookup_def)

lemma init_str_other_ca:
  "\<not> is_in ''.fits'' p \<Longrightarrow> is_in ''ca'' p \<Longrightarrow>
   init_str fs p =
     then_do (h5_cube fs p) (\<lambda>c.
     then_do (h5_wvls c) (\<lambda>w.
     then_do (h5_px_res c) (\<lambda>r.
     then_do (h5_pointing c) (\<lambda>pt.
     then_do (h5_mid_ca c) (\<lambda>m.
       Inr (empty_crisp\<lparr>ca := Some c, ca_wvls := Some w,
                         px_res := Some r, pointing := Some pt, mid := Some m\<rparr>))))))"
  by (simp add: init_str_def file_kind_def truthy_def)

lemma example_ca_h5:
  "init_str example_fs ''ca_8542.h5'' =
     Inr (empty_crisp\<lparr>ca := Some \<lparr>header = h5_header, data = Some example_data\<rparr>,
                       ca_wvls := Some (Arr [Num 6562, Num 6563, Num 6564]),
                       px_res := Some (592 / 10000), pointing := Some (- 5, 10),
                       mid := Some (500, 600)\<rparr>)"
proof -
  have "h5_cube example_fs ''ca_8542.h5'' = Inr \<lparr>header = h5_header, data = Some example_data\<rparr>"
    by (simp add: h5_cube_def h5py_File_def example_fs_def dataset_def)
  then show ?thesis
    by (simp add: init_str_other_ca example_h5_header)
qed

text \<open>
  The classification of a path never fails to choose a reader: whatever does not
  contain \<^verbatim>\<open>.fits\<close> is given to the HDF5 reader.
\<close>

lemma file_kind_cases:
  "file_kind path = (if is_in ''.fits'' path then Some FITS else Some HDF5)"
  by (simp add: file_kind_def truthy_def)

text \<open>
  C3. The centre pixel of a single HDF5 file should be the pair of the last two
  entries of \<^verbatim>\<open>dimensions\<close>, each halved, for a calcium and for an H-alpha file alike.
  Line 75 does so for a calcium file; line 84 leaves the last entry as it is for an
  H-alpha file: with \<^verbatim>\<open>dimensions = [3, 1000, 1200]\<close> the centre pixel of the H-alpha
  file is (500, 1200), that of the calcium file (500, 600).
\<close>

theorem h5_mid_halpha_not_halved:
  "(case init example_fs (Path ''halpha.h5'') of
      Inl e \<Rightarrow> False
    | Inr self \<Rightarrow>
        (case ha self of
           None \<Rightarrow> False
         | Some c \<Rightarrow> lookup (header c) ''dimensions'' = Inr (HList [HInt 3, HInt 1000, HInt 1200]))
        \<and> mid self = Some (500, 1200))
   \<and> (case init example_fs (Path ''ca_8542.h5'') of
         Inl e \<Rightarrow> False
       | Inr self \<Rightarrow>
           (case ca self of
              None \<Rightarrow> False
            | Some c \<Rightarrow> lookup (header c) ''dimensions'' = Inr (HList [HInt 3, HInt 1000, HInt 1200]))
           \<and> mid self = Some (500, 600))"
  by (simp add: example_halpha_h5 example_ca_h5 empty_crisp_def lookup_def h5_header_def)

text \<open>
  C4. A FITS file whose primary header has no \<^verbatim>\<open>spect_pos\<close> and which has no
  extension 1 does not fail with \<^verbatim>\<open>WiseGuyError\<close>: indexing the list of extensions
  raises \<^verbatim>\<open>IndexError\<close>.
\<close>

theorem init_fits_no_wavelengths_counterexample:
  "is_in ''.fits'' ''ca_8542.fits''
   \<and> example_fs ''ca_8542.fits'' = Some (FitsFile [\<lparr>header = fits_header, data = Some example_data\<rparr>])
   \<and> fits_header ''spect_pos'' = None
   \<and> init example_fs (Path ''ca_8542.fits'') = Inl IndexError
   \<and> init example_fs (Path ''ca_8542.fits'') \<noteq> Inl WiseGuyError"
proof -
  have on_disk: "example_fs ''ca_8542.fits''
                = Some (FitsFile [\<lparr>header = fits_header, data = Some example_data\<rparr>])"
    by (simp add: example_fs_def)
  have no_key: "fits_header ''spect_pos'' = None"
    by (simp add: fits_header_def)
  have "init_str example_fs ''ca_8542.fits'' = Inl IndexError"
    by (simp add: init_str_fits_ca fits_open_def on_disk no_key
                  fits_wvls_missing [of example_fs "''ca_8542.fits''", OF on_disk])
  with on_disk no_key show ?thesis by simp
qed

text \<open>
  C4, as the code has it. For every FITS file whose primary header has no
  \<^verbatim>\<open>spect_pos\<close>, given as one path or met in a list of paths: construction fails with
  \<^verbatim>\<open>IndexError\<close> when there is no extension 1, and with \<^verbatim>\<open>TypeError\<close> when extension 1
  has no data.
\<close>

theorem init_fits_no_wavelengths:
  assumes "is_in ''.fits'' path"
      and "fs path = Some (FitsFile (hdu # rest))"
      and "header hdu ''spect_pos'' = None"
  shows "(rest = [] \<longrightarrow>
            init fs (Path path) = Inl IndexError \<and> init_step fs self path = Inl IndexError)
       \<and> (\<forall>ext more. rest = ext # more \<and> data ext = None \<longrightarrow>
            init fs (Path path) = Inl TypeError \<and> init_step fs self path = Inl TypeError)"
proof -
  have wv: "fits_wvls fs path hdu =
           then_do (py_nth (hdu # rest) 1) (\<lambda>ext.
             (case data ext of None \<Rightarrow> Inl TypeError | Some d \<Rightarrow> Inr d))"
    using assms(2,3) by (rule fits_wvls_missing)
  have op: "fits_open fs path = Inr (hdu # rest)"
    using assms(2) by (simp add: fits_open_def)
  show ?thesis
  proof (cases "is_in ''ca'' path")
    case True
    then show ?thesis
      using assms(1) by (auto simp: init_str_fits_ca init_step_fits_ca op wv)
  next
    case False
    then show ?thesis
      using assms(1) by (auto simp: init_str_fits_ha init_step_fits_ha op wv)
  qed
qed

theorem init_fits_no_wavelengths_witness:
  "is_in ''.fits'' ''ca_8542_ext.fits''
   \<and> example_fs ''ca_8542_ext.fits''
       = Some (FitsFile (\<lparr>header = fits_header, data = Some example_data\<rparr>
                         # [\<lparr>header = Map.empty, data = None\<rparr>]))
   \<and> header \<lparr>header = fits_header, data = Some example_data\<rparr> ''spect_pos'' = None
   \<and> data \<lparr>header = Map.empty, data = None\<rparr> = None
   \<and> init example_fs (Path ''ca_8542_ext.fits'') = Inl TypeError
   \<and> init_step example_fs empty_crisp ''ca_8542_ext.fits'' = Inl TypeError"
proof -
  let ?hdu = "\<lparr>header = fits_header, data = Some example_data\<rparr>"
  let ?ext = "\<lparr>header = Map.empty, data = (None :: nd option)\<rparr>"
  have name: "is_in ''.fits'' ''ca_8542_ext.fits''" by simp
  have on_disk: "example_fs ''ca_8542_ext.fits'' = Some (FitsFile (?hdu # [?ext]))"
    by (simp add: example_fs_def)
  have no_key: "header ?hdu ''spect_pos'' = None" by (simp add: fits_header_def)
  have no_data: "data ?ext = None" by simp
  from init_fits_no_wavelengths
         [where fs = example_fs and path = "''ca_8542_ext.fits''" and self = empty_crisp,
          OF name on_disk no_key]
       no_data
  have "init example_fs (Path ''ca_8542_ext.fits'') = Inl TypeError
        \<and> init_step example_fs empty_crisp ''ca_8542_ext.fits'' = Inl TypeError"
    by blast
  with name on_disk no_key no_data show ?thesis by blast
qed

text \<open>
  C5. A path with none of the extensions is not left alone: \<^verbatim>\<open>obs.dat\<close> contains
  neither \<^verbatim>\<open>.fits\<close> nor \<^verbatim>\<open>.h5\<close> nor \<^verbatim>\<open>.hdf5\<close>, is classified as HDF5, and is read
  by the HDF5 branch into the H-alpha line.
\<close>

theorem file_kind_without_extension:
  "\<not> is_in ''.fits'' ''obs.dat'' \<and> \<not> is_in ''.h5'' ''obs.dat'' \<and> \<not> is_in ''.hdf5'' ''obs.dat''
   \<and> file_kind ''obs.dat'' = Some HDF5
   \<and> (case init example_fs (Path ''obs.dat'') of
         Inl e \<Rightarrow> False
       | Inr self \<Rightarrow> ha self = Some \<lparr>header = h5_header, data = Some example_data\<rparr>)"
  by (simp add: example_obs_dat empty_crisp_def file_kind_def truthy_def)

subsection \<open>Description\<close>

lemmas str_defs =
  str_branch_def in_dict_def dict_keys_def truthy_def CRISP_str_def except_KeyError_def

text \<open>
  The first condition holds whenever \<^verbatim>\<open>ha\<close> is set, the second whenever it is not, and
  the third never.
\<close>

lemma str_branch_cases:
  "str_branch self = (if ha self \<noteq> None then Some BothLines else Some CalciumOnly)"
  by (simp add: str_defs)

text \<open>
  C1. On an accessor with exactly one line, \<^verbatim>\<open>__str__\<close> should evaluate the branch of
  that line, and no branch only when neither line is there. For the accessor made of
  one H-alpha FITS file, which has \<^verbatim>\<open>ha\<close> and not \<^verbatim>\<open>ca\<close>, it evaluates the branch for
  both lines, which reads \<^verbatim>\<open>self.ca\<close> and raises \<^verbatim>\<open>AttributeError\<close>; for the accessor
  with neither line it takes the calcium branch.
\<close>

theorem CRISP_str_halpha_only:
  "(case init example_fs (Path ''halpha.fits'') of
      Inl e \<Rightarrow> False
    | Inr self \<Rightarrow>
        in_dict ''ha'' self \<and> \<not> in_dict ''ca'' self
        \<and> str_branch self = Some BothLines
        \<and> CRISP_str self = Inl (AttributeError ''ca''))
   \<and> \<not> in_dict ''ha'' empty_crisp \<and> \<not> in_dict ''ca'' empty_crisp
   \<and> str_branch empty_crisp = Some CalciumOnly"
  by (simp add: example_halpha_fits str_defs empty_crisp_def)

subsection \<open>Slicing an inversion\<close>

text \<open>
  C10. \<^verbatim>\<open>InversionSlicingMixin._slice\<close> fails on every object and every index
  expression, and never returns a mapping; when the four arrays and the coordinate
  system slice without error, the exception is the \<^verbatim>\<open>NameError\<close> of the name \<^verbatim>\<open>z\<close>.
\<close>

theorem InversionSlicingMixin_slice_fails:
  "(\<exists>e. InversionSlicingMixin_slice self i = Inl e)
   \<and> (\<forall>a b c d w. sliced ''ne'' (ne self) i = Inr a \<and> sliced ''temp'' (temp self) i = Inr b
          \<and> sliced ''vel'' (vel self) i = Inr c \<and> sliced ''err'' (err self) i = Inr d
          \<and> slice_wcs self i = Inr w
        \<longrightarrow> InversionSlicingMixin_slice self i = Inl (NameError ''z''))"
  by (auto simp: InversionSlicingMixin_slice_def load_name_def mixin_globals_def then_do_def
           split: sum.splits)

theorem InversionSlicingMixin_slice_fails_witness:
  "sliced ''ne'' (ne example_inversion) [Ix 0] = Inr (Arr [Arr [Num 1, Num 2], Arr [Num 3, Num 4]])
   \<and> sliced ''temp'' (temp example_inversion) [Ix 0] = Inr (Arr [Arr [Num 1, Num 2], Arr [Num 3, Num 4]])
   \<and> sliced ''vel'' (vel example_inversion) [Ix 0] = Inr (Arr [Arr [Num 1, Num 2], Arr [Num 3, Num 4]])
   \<and> sliced ''err'' (err example_inversion) [Ix 0] = Inr (Arr [Arr [Num 1, Num 2], Arr [Num 3, Num 4]])
   \<and> slice_wcs example_inversion [Ix 0] = Inr ()
   \<and> InversionSlicingMixin_slice example_inversion [Ix 0] = Inl (NameError ''z'')"
proof -
  let ?plane = "Arr [Arr [Num 1, Num 2], Arr [Num 3, Num 4]]"
  have a: "sliced ''ne'' (ne example_inversion) [Ix 0] = Inr ?plane"
    and b: "sliced ''temp'' (temp example_inversion) [Ix 0] = Inr ?plane"
    and c: "sliced ''vel'' (vel example_inversion) [Ix 0] = Inr ?plane"
    and d: "sliced ''err'' (err example_inversion) [Ix 0] = Inr ?plane"
    and w: "slice_wcs example_inversion [Ix 0] = Inr ()"
    by (simp_all add: sliced_def example_inversion_def example_data_def py_nth_def)
  from InversionSlicingMixin_slice_fails [of example_inversion "[Ix 0]"] a b c d w
  have "InversionSlicingMixin_slice example_inversion [Ix 0] = Inl (NameError ''z'')"
    by blast
  with a b c d w show ?thesis by blast
qed

end
